theory Spec2Isabelle
  imports Main "HOL-Library.Multiset"
begin

section \<open>Data model\<close>

text \<open>
  Values read back from JSON are untyped in the source. An optional property of a stored
  object is in one of three states: the key is missing (\<open>undefined\<close>), it holds
  \<open>null\<close>, or it holds a value. The interfaces \<open>Task\<close>, \<open>TaskType\<close> and
  \<open>Column\<close> of \<open>app.component.ts\<close> fix the type of the value.
\<close>

datatype jsstr = Undefined | Null | Str string

datatype jsnum = NUndefined | NNull | Num int

datatype Priority = low | medium | high

text \<open>
  \<open>estimatedTimeHours\<close> is a JavaScript number; the model covers the integer-valued
  ones, for which the multiplication by 60 is exact.
\<close>

record Task =
  t_id :: string
  t_title :: string
  t_description :: string
  t_priority :: Priority
  t_dueDate :: jsstr
  t_assignee :: jsstr
  t_estimatedTimeHours :: jsnum
  t_scheduleDate :: jsstr
  t_type :: jsstr

record TaskType =
  tt_id :: string
  tt_name :: string
  tt_color :: string
  tt_enabled :: bool
  tt_forTasks :: bool
  tt_forEvents :: bool

text \<open>The entries of the calendar component's own catalog \<open>types\<close>.\<close>

record CalendarType =
  cty_id :: string
  cty_name :: string
  cty_color :: string

text \<open>JavaScript truthiness of an optional string and of an optional number.\<close>

fun truthy :: "jsstr \<Rightarrow> bool" where
  "truthy (Str s) = (s \<noteq> [])"
| "truthy Null = False"
| "truthy Undefined = False"

fun truthy_num :: "jsnum \<Rightarrow> bool" where
  "truthy_num (Num n) = (n \<noteq> 0)"
| "truthy_num NNull = False"
| "truthy_num NUndefined = False"

section \<open>Task type catalog\<close>

text \<open>The initial value of the field \<open>taskTypes\<close> of \<open>AppComponent\<close>.\<close>

definition mkType :: "string \<Rightarrow> string \<Rightarrow> string \<Rightarrow> bool \<Rightarrow> bool \<Rightarrow> bool \<Rightarrow> TaskType" where
  "mkType i n c e ft fe =
     \<lparr>tt_id = i, tt_name = n, tt_color = c, tt_enabled = e, tt_forTasks = ft, tt_forEvents = fe\<rparr>"

definition defaultTaskTypes :: "TaskType list" where
  "defaultTaskTypes =
    [mkType ''operational'' ''Operational'' ''#2f6fec'' True True False,
     mkType ''technical'' ''Technical'' ''#17a2b8'' True True False,
     mkType ''strategic'' ''Strategic'' ''#28a745'' True True False,
     mkType ''hiring'' ''Hiring'' ''#6f42c1'' True True False,
     mkType ''financial'' ''Financial'' ''#ffc107'' True True False,
     mkType ''meeting'' ''Meeting'' ''#fd7e14'' False False True,
     mkType ''online-call'' ''Online call'' ''#6610f2'' False False True,
     mkType ''interview'' ''Interview'' ''#e83e8c'' False False True,
     mkType ''type1'' ''Type 1'' ''#fd7e14'' False False True,
     mkType ''type2'' ''Type 2'' ''#20c997'' False False True]"

text \<open>The field \<open>types\<close> of \<open>CalendarComponent\<close>; no method assigns to it.\<close>

definition mkCalType :: "string \<Rightarrow> string \<Rightarrow> string \<Rightarrow> CalendarType" where
  "mkCalType i n c = \<lparr>cty_id = i, cty_name = n, cty_color = c\<rparr>"

definition calendarTypes :: "CalendarType list" where
  "calendarTypes =
    [mkCalType ''operational'' ''Operational'' ''#2f6fec'',
     mkCalType ''technical'' ''Technical'' ''#17a2b8'',
     mkCalType ''strategic'' ''Strategic'' ''#28a745'',
     mkCalType ''hiring'' ''Hiring'' ''#6f42c1'',
     mkCalType ''financial'' ''Financial'' ''#ffc107'',
     mkCalType ''meeting'' ''Meeting'' ''#fd7e14'',
     mkCalType ''interview'' ''Interview'' ''#e83e8c'']"

text \<open>
  \<open>task.type || 'operational'\<close>: the key looked up for a task.
\<close>

definition typeKey :: "Task \<Rightarrow> string" where
  "typeKey task = (if truthy (t_type task) then (case t_type task of Str s \<Rightarrow> s | _ \<Rightarrow> ''operational'')
                   else ''operational'')"

text \<open>\<open>getTaskTypeColor\<close> and \<open>getTaskTypeName\<close> of \<open>AppComponent\<close> (both revisions agree).\<close>

definition getTaskTypeColor :: "TaskType list \<Rightarrow> Task \<Rightarrow> string" where
  "getTaskTypeColor taskTypes task =
     (case find (\<lambda>t. tt_id t = typeKey task) taskTypes of
        Some taskType \<Rightarrow> tt_color taskType
      | None \<Rightarrow> ''#2f6fec'')"

definition getTaskTypeName :: "TaskType list \<Rightarrow> Task \<Rightarrow> string" where
  "getTaskTypeName taskTypes task =
     (case find (\<lambda>t. tt_id t = typeKey task) taskTypes of
        Some taskType \<Rightarrow> tt_name taskType
      | None \<Rightarrow> ''Operational'')"

text \<open>
  \<open>getTypeColor\<close> and \<open>getTypeName\<close> of \<open>CalendarComponent\<close>:
  \<open>this.types.find(t => t.id === typeId)?.color || '#2f6fec'\<close>. The \<open>||\<close> also replaces
  an empty color or name of a matching entry.
\<close>

definition getTypeColor :: "CalendarType list \<Rightarrow> string \<Rightarrow> string" where
  "getTypeColor types typeId =
     (case find (\<lambda>t. cty_id t = typeId) types of
        Some t \<Rightarrow> (if cty_color t \<noteq> [] then cty_color t else ''#2f6fec'')
      | None \<Rightarrow> ''#2f6fec'')"

definition getTypeName :: "CalendarType list \<Rightarrow> string \<Rightarrow> string" where
  "getTypeName types typeId =
     (case find (\<lambda>t. cty_id t = typeId) types of
        Some t \<Rightarrow> (if cty_name t \<noteq> [] then cty_name t else ''Operational'')
      | None \<Rightarrow> ''Operational'')"

text \<open>
  \<open>toggleTypeForTasks\<close>, \<open>toggleTypeForEvents\<close> and \<open>updateTypeName\<close> mutate the entry they
  are handed, which is an element of \<open>taskTypes\<close>; the model returns the new entry, and
  \<open>onType\<close> puts it back at its index of the catalog.
\<close>

definition toggleTypeForTasks :: "TaskType \<Rightarrow> TaskType" where
  "toggleTypeForTasks type =
     (let type1 = type\<lparr>tt_forTasks := \<not> tt_forTasks type\<rparr>
      in if tt_forTasks type1 then type1\<lparr>tt_enabled := True\<rparr> else type1)"

definition toggleTypeForEvents :: "TaskType \<Rightarrow> TaskType" where
  "toggleTypeForEvents type = type\<lparr>tt_forEvents := \<not> tt_forEvents type\<rparr>"

text \<open>\<open>trim\<close> on ASCII text: blanks, tabs and line ends go from both ends.\<close>

definition isSpace :: "char \<Rightarrow> bool" where
  "isSpace c = (c \<in> set [CHR '' '', CHR 0x09, CHR 0x0A, CHR 0x0B, CHR 0x0C, CHR 0x0D])"

definition trim :: "string \<Rightarrow> string" where
  "trim s = rev (dropWhile isSpace (rev (dropWhile isSpace s)))"

definition updateTypeName :: "string \<Rightarrow> TaskType \<Rightarrow> TaskType" where
  "updateTypeName newName type = type\<lparr>tt_name := trim newName\<rparr>"

definition onType :: "(TaskType \<Rightarrow> TaskType) \<Rightarrow> nat \<Rightarrow> TaskType list \<Rightarrow> TaskType list" where
  "onType f i taskTypes = (if i < length taskTypes then taskTypes[i := f (taskTypes ! i)] else taskTypes)"

section \<open>Dates\<close>

text \<open>
  A valid \<open>Date\<close> object is its time value: milliseconds since 1970-01-01T00:00:00Z. The
  source reads and writes dates through the local-time methods \<open>getDay\<close>, \<open>getDate\<close>,
  \<open>setDate\<close> and \<open>setHours\<close>, and formats them with \<open>toISOString\<close>, which is in UTC. The
  parameter \<open>tz\<close> is the offset of local time from UTC in milliseconds (local = UTC + tz),
  taken as constant: daylight-saving changes are outside the model.
\<close>

type_synonym Date = int

definition msPerDay :: int where
  "msPerDay = 86400000"

definition Day :: "int \<Rightarrow> int" where
  "Day t = t div msPerDay"

text \<open>
  Year, month (1 to 12) and day of the month of a day number in the proleptic Gregorian
  calendar, and back.
\<close>

definition ymd_of_day :: "int \<Rightarrow> int \<times> int \<times> int" where
  "ymd_of_day z =
     (let z1 = z + 719468;
          era = z1 div 146097;
          doe = z1 mod 146097;
          yoe = (doe - doe div 1460 + doe div 36524 - doe div 146096) div 365;
          doy = doe - (365 * yoe + yoe div 4 - yoe div 100);
          mp = (5 * doy + 2) div 153;
          d = doy - (153 * mp + 2) div 5 + 1;
          m = (if mp < 10 then mp + 3 else mp - 9);
          y = yoe + era * 400
      in (if m \<le> 2 then y + 1 else y, m, d))"

definition day_of_ymd :: "int \<Rightarrow> int \<Rightarrow> int \<Rightarrow> int" where
  "day_of_ymd y m d =
     (let y1 = (if m \<le> 2 then y - 1 else y);
          era = y1 div 400;
          yoe = y1 mod 400;
          doy = (153 * (if m > 2 then m - 3 else m + 9) + 2) div 5 + d - 1;
          doe = yoe * 365 + yoe div 4 - yoe div 100 + doy
      in era * 146097 + doe - 719468)"

text \<open>\<open>getDay\<close>: the local day of the week, Sunday = 0; day 0 was a Thursday.\<close>

definition getDay :: "int \<Rightarrow> Date \<Rightarrow> int" where
  "getDay tz t = (Day (t + tz) + 4) mod 7"

text \<open>\<open>getDate\<close>: the local day of the month.\<close>

definition getDate :: "int \<Rightarrow> Date \<Rightarrow> int" where
  "getDate tz t = (case ymd_of_day (Day (t + tz)) of (y, m, d) \<Rightarrow> d)"

text \<open>
  \<open>setDate(dt)\<close> keeps the local year, month and time of day and moves to day \<open>dt\<close> counted
  from the first of that month, where \<open>dt\<close> may lie outside the month: the day number
  changes by \<open>dt - getDate()\<close>.
\<close>

definition setDate :: "int \<Rightarrow> Date \<Rightarrow> int \<Rightarrow> Date" where
  "setDate tz t dt = t + (dt - getDate tz t) * msPerDay"

text \<open>\<open>setHours(0, 0, 0, 0)\<close>: local midnight of the same local day.\<close>

definition setHours0 :: "int \<Rightarrow> Date \<Rightarrow> Date" where
  "setHours0 tz t = Day (t + tz) * msPerDay - tz"

text \<open>\<open>getStartOfWeek\<close> (the two calendar revisions agree).\<close>

definition getStartOfWeek :: "int \<Rightarrow> Date \<Rightarrow> Date" where
  "getStartOfWeek tz date =
     (let d = date;
          day = (getDay tz d + 6) mod 7;
          d = setDate tz d (getDate tz d - day);
          d = setHours0 tz d
      in d)"

text \<open>
  \<open>toISOString().split('T')[0]\<close>: the UTC calendar date, as \<open>YYYY-MM-DD\<close> for the years
  0 to 9999 and with a sign and six digits of year otherwise.
\<close>

definition digit :: "int \<Rightarrow> char" where
  "digit n = ''0123456789'' ! nat (n mod 10)"

definition pad2 :: "int \<Rightarrow> string" where
  "pad2 n = [digit (n div 10), digit n]"

definition pad4 :: "int \<Rightarrow> string" where
  "pad4 n = [digit (n div 1000), digit (n div 100), digit (n div 10), digit n]"

definition pad6 :: "int \<Rightarrow> string" where
  "pad6 n = [digit (n div 100000), digit (n div 10000)] @ pad4 n"

definition isoDate :: "Date \<Rightarrow> string" where
  "isoDate t =
     (case ymd_of_day (Day t) of (y, m, d) \<Rightarrow>
        (if 0 \<le> y \<and> y \<le> 9999 then pad4 y
         else (if y < 0 then CHR ''-'' else CHR ''+'') # pad6 (abs y))
        @ ''-'' @ pad2 m @ ''-'' @ pad2 d)"

text \<open>
  \<open>new Date(dateStr)\<close> is a parameter \<open>parse\<close> of the functions that call it, \<open>None\<close>
  standing for an invalid date. \<open>parseDateOnly\<close> is its value on the strings a date input
  produces: a valid calendar date \<open>YYYY-MM-DD\<close> denotes midnight UTC of that day. It
  is used to evaluate the functions on such strings only.
\<close>

definition digitVal :: "char \<Rightarrow> int option" where
  "digitVal c = map_of [(CHR ''0'', 0), (CHR ''1'', 1), (CHR ''2'', 2), (CHR ''3'', 3), (CHR ''4'', 4),
                        (CHR ''5'', 5), (CHR ''6'', 6), (CHR ''7'', 7), (CHR ''8'', 8), (CHR ''9'', 9)] c"

fun number :: "int \<Rightarrow> string \<Rightarrow> int option" where
  "number acc [] = Some acc"
| "number acc (c # cs) = (case digitVal c of None \<Rightarrow> None | Some v \<Rightarrow> number (10 * acc + v) cs)"

definition daysInMonth :: "int \<Rightarrow> int \<Rightarrow> int" where
  "daysInMonth y m =
     (if m = 2 then (if y mod 4 = 0 \<and> (y mod 100 \<noteq> 0 \<or> y mod 400 = 0) then 29 else 28)
      else if m = 4 \<or> m = 6 \<or> m = 9 \<or> m = 11 then 30 else 31)"

definition parseDateOnly :: "string \<Rightarrow> Date option" where
  "parseDateOnly s =
     (if length s = 10 \<and> s ! 4 = CHR ''-'' \<and> s ! 7 = CHR ''-'' then
        (case (number 0 (take 4 s), number 0 (take 2 (drop 5 s)), number 0 (drop 8 s)) of
           (Some y, Some m, Some d) \<Rightarrow>
             (if 1 \<le> m \<and> m \<le> 12 \<and> 1 \<le> d \<and> d \<le> daysInMonth y m
              then Some (day_of_ymd y m d * msPerDay) else None)
         | _ \<Rightarrow> None)
      else None)"

section \<open>Local storage\<close>

text \<open>
  A column of the board; its tasks are the elements of type \<open>'a\<close>: task objects by value
  in a stored board, references to task objects in the running component.
\<close>

record 'a Column =
  c_id :: string
  c_title :: string
  c_tasks :: "'a list"

text \<open>
  What \<open>localStorage.getItem\<close> returns for a key, seen through \<open>JSON.parse\<close>: nothing
  stored (\<open>null\<close>), the empty string, a text that \<open>JSON.parse\<close> rejects with a
  \<open>SyntaxError\<close>, or the JSON text of a value. \<open>JSON.stringify\<close> followed by
  \<open>JSON.parse\<close> gives the value back, a missing property staying missing.
\<close>

datatype 'a item = NoItem | EmptyText | Malformed string | Json 'a

record localStorage =
  kanbanBoard :: "Task Column list item"
  taskTypesItem :: "TaskType list item"

datatype error = SyntaxError | TypeError

text \<open>A method either returns or throws; the state it leaves behind is kept in both cases.\<close>

datatype 's outcome = Returns 's | Throws error 's

section \<open>Calendar projection\<close>

record CalendarTask =
  ct_id :: string
  ct_title :: string
  ct_dayIndex :: int
  ct_typeId :: string
  ct_durationMinutes :: int

text \<open>\<open>t.scheduleDate || t.dueDate || null\<close>.\<close>

definition dateStr :: "Task \<Rightarrow> string option" where
  "dateStr t =
     (if truthy (t_scheduleDate t) then (case t_scheduleDate t of Str s \<Rightarrow> Some s | _ \<Rightarrow> None)
      else if truthy (t_dueDate t) then (case t_dueDate t of Str s \<Rightarrow> Some s | _ \<Rightarrow> None)
      else None)"

text \<open>
  The object literal \<open>ct\<close> of \<open>refreshCalendarFromStorage\<close>. A stored task has an id and
  a title, so the \<open>??\<close> defaults of these two are not reached.
\<close>

definition calendarTaskOf :: "Task \<Rightarrow> int \<Rightarrow> CalendarTask" where
  "calendarTaskOf t idx =
     \<lparr>ct_id = t_id t,
      ct_title = t_title t,
      ct_dayIndex = idx,
      ct_typeId = (case t_type t of Str s \<Rightarrow> s | _ \<Rightarrow> ''operational''),
      ct_durationMinutes =
        (if truthy_num (t_estimatedTimeHours t)
         then (case t_estimatedTimeHours t of Num h \<Rightarrow> h * 60 | _ \<Rightarrow> 15)
         else 15)\<rparr>"

text \<open>One iteration of the loop \<open>for (const t of all)\<close>.\<close>

definition placeTask ::
  "(string \<Rightarrow> Date option) \<Rightarrow> Date \<Rightarrow> Date \<Rightarrow> Task \<Rightarrow> CalendarTask list list \<Rightarrow> CalendarTask list list" where
  "placeTask parse start end t dayTasks =
     (case dateStr t of
        None \<Rightarrow> dayTasks
      | Some s \<Rightarrow>
          (case parse s of
             None \<Rightarrow> dayTasks
           | Some d \<Rightarrow>
               if start \<le> d \<and> d < end then
                 (let idx = (d - start) div 86400000
                  in if 0 \<le> idx \<and> idx < 7
                     then dayTasks[nat idx := dayTasks ! nat idx @ [calendarTaskOf t idx]]
                     else dayTasks)
               else dayTasks))"

text \<open>
  \<open>refreshCalendarFromStorage\<close> (the two calendar revisions agree): the new value of
  \<open>dayTasks\<close>. The day lists are emptied before the \<open>try\<close> block; a \<open>SyntaxError\<close> of
  \<open>JSON.parse\<close> is caught and logged.
\<close>

definition refreshCalendarFromStorage ::
  "(string \<Rightarrow> Date option) \<Rightarrow> int \<Rightarrow> Date \<Rightarrow> localStorage \<Rightarrow> CalendarTask list list" where
  "refreshCalendarFromStorage parse tz weekStart ls =
     (let dayTasks = replicate 7 []
      in case kanbanBoard ls of
           NoItem \<Rightarrow> dayTasks
         | EmptyText \<Rightarrow> dayTasks
         | Malformed raw \<Rightarrow> dayTasks
         | Json columns \<Rightarrow>
             (let all = concat (map c_tasks columns);
                  start = weekStart;
                  end = setDate tz start (getDate tz start + 7)
              in fold (placeTask parse start end) all dayTasks))"

text \<open>
  The projection in the words of the specification: the effective date of a task is its
  \<open>scheduleDate\<close> if present, else its \<open>dueDate\<close>; the bucket is
  \<open>floor((effectiveDate - weekStart) / oneDay)\<close>, kept only in \<open>[0,7)\<close>.
\<close>

definition present :: "jsstr \<Rightarrow> bool" where
  "present v = (v \<noteq> Undefined \<and> v \<noteq> Null \<and> v \<noteq> Str [])"

definition effectiveDate :: "(string \<Rightarrow> Date option) \<Rightarrow> Task \<Rightarrow> Date option" where
  "effectiveDate parse t =
     (case (if present (t_scheduleDate t) then t_scheduleDate t else t_dueDate t) of
        Str s \<Rightarrow> (if s = [] then None else parse s)
      | _ \<Rightarrow> None)"

definition bucketIndex :: "(string \<Rightarrow> Date option) \<Rightarrow> Date \<Rightarrow> Task \<Rightarrow> int option" where
  "bucketIndex parse weekStart t =
     (case effectiveDate parse t of
        None \<Rightarrow> None
      | Some d \<Rightarrow>
          (let idx = (d - weekStart) div msPerDay
           in if 0 \<le> idx \<and> idx < 7 then Some idx else None))"

definition boardTasks :: "localStorage \<Rightarrow> Task list" where
  "boardTasks ls = (case kanbanBoard ls of Json columns \<Rightarrow> concat (map c_tasks columns) | _ \<Rightarrow> [])"

section \<open>Calendar write-back\<close>

text \<open>
  The loops of \<open>updateKanbanTaskDate\<close> over the columns and their tasks stop at the
  first task whose id is that of the calendar task; \<open>None\<close> stands for \<open>taskFound\<close>
  remaining false. The first revision (part 001) rewrites \<open>scheduleDate\<close> when it is not
  \<open>undefined\<close> and \<open>dueDate\<close> otherwise.
\<close>

definition setTaskDate_p1 :: "string \<Rightarrow> Task \<Rightarrow> Task" where
  "setTaskDate_p1 newDateISO task =
     (if t_scheduleDate task \<noteq> Undefined then task\<lparr>t_scheduleDate := Str newDateISO\<rparr>
      else task\<lparr>t_dueDate := Str newDateISO\<rparr>)"

text \<open>The other revision (part 000) has a third branch.\<close>

definition setTaskDate_p0 :: "string \<Rightarrow> Task \<Rightarrow> Task" where
  "setTaskDate_p0 newDateISO task =
     (if t_scheduleDate task \<noteq> Undefined then task\<lparr>t_scheduleDate := Str newDateISO\<rparr>
      else if t_dueDate task \<noteq> Undefined then task\<lparr>t_dueDate := Str newDateISO\<rparr>
      else task\<lparr>t_scheduleDate := Str newDateISO\<rparr>)"

fun updateTasks :: "(Task \<Rightarrow> Task) \<Rightarrow> string \<Rightarrow> Task list \<Rightarrow> Task list option" where
  "updateTasks upd cid [] = None"
| "updateTasks upd cid (task # tasks) =
     (if t_id task = cid then Some (upd task # tasks)
      else (case updateTasks upd cid tasks of
              None \<Rightarrow> None
            | Some tasks' \<Rightarrow> Some (task # tasks')))"

fun updateColumns :: "(Task \<Rightarrow> Task) \<Rightarrow> string \<Rightarrow> Task Column list \<Rightarrow> Task Column list option" where
  "updateColumns upd cid [] = None"
| "updateColumns upd cid (column # columns) =
     (case updateTasks upd cid (c_tasks column) of
        Some tasks' \<Rightarrow> Some (column\<lparr>c_tasks := tasks'\<rparr> # columns)
      | None \<Rightarrow>
          (case updateColumns upd cid columns of
             None \<Rightarrow> None
           | Some columns' \<Rightarrow> Some (column # columns')))"

text \<open>
  \<open>updateKanbanTaskDate\<close>: the new content of local storage. Nothing is written when
  the item is missing or empty, when \<open>JSON.parse\<close> throws (caught), or when no task was
  found.
\<close>

definition updateKanbanTaskDate ::
  "(string \<Rightarrow> Task \<Rightarrow> Task) \<Rightarrow> int \<Rightarrow> Date \<Rightarrow> CalendarTask \<Rightarrow> int \<Rightarrow> localStorage \<Rightarrow> localStorage" where
  "updateKanbanTaskDate setTaskDate tz weekStart calendarTask newDayIndex ls =
     (case kanbanBoard ls of
        NoItem \<Rightarrow> ls
      | EmptyText \<Rightarrow> ls
      | Malformed raw \<Rightarrow> ls
      | Json columns \<Rightarrow>
          (let newDate = setDate tz weekStart (getDate tz weekStart + newDayIndex);
               newDateISO = isoDate newDate
           in case updateColumns (setTaskDate newDateISO) (ct_id calendarTask) columns of
                None \<Rightarrow> ls
              | Some columns' \<Rightarrow> ls\<lparr>kanbanBoard := Json columns'\<rparr>))"

definition updateKanbanTaskDate_p1 ::
  "int \<Rightarrow> Date \<Rightarrow> CalendarTask \<Rightarrow> int \<Rightarrow> localStorage \<Rightarrow> localStorage" where
  "updateKanbanTaskDate_p1 = updateKanbanTaskDate setTaskDate_p1"

definition updateKanbanTaskDate_p0 ::
  "int \<Rightarrow> Date \<Rightarrow> CalendarTask \<Rightarrow> int \<Rightarrow> localStorage \<Rightarrow> localStorage" where
  "updateKanbanTaskDate_p0 = updateKanbanTaskDate setTaskDate_p0"

section \<open>Drag and drop\<close>

text \<open>
  The drop event of the drag-drop library: the drop list the item came from, the list it
  was dropped on, the index it had, the index it was dropped at, and the data attached to
  the dragged item. A drop list is named by its position: column \<open>i\<close> of the board, day
  \<open>i\<close> of the calendar (whose list has the id \<open>day-i\<close>, from which \<open>extractDayIndex\<close>
  reads \<open>i\<close> back).
\<close>

record 'a CdkDragDrop =
  previousContainer :: nat
  container :: nat
  previousIndex :: int
  currentIndex :: int
  item_data :: 'a

text \<open>
  \<open>splice(i, 1)\<close> and \<open>splice(i, 0, x)\<close> for \<open>i \<ge> 0\<close>; a start beyond the end of the
  array is the end of the array.
\<close>

definition spliceOut :: "nat \<Rightarrow> 'a list \<Rightarrow> 'a list" where
  "spliceOut i xs = take i xs @ drop (Suc i) xs"

definition spliceIn :: "nat \<Rightarrow> 'a \<Rightarrow> 'a list \<Rightarrow> 'a list" where
  "spliceIn i x xs = take i xs @ x # drop i xs"

definition clamp :: "int \<Rightarrow> int \<Rightarrow> int" where
  "clamp v hi = max 0 (min hi v)"

text \<open>
  Modelled from the spec: \<open>moveItemInArray\<close> of the drag-drop library, which is not part of
  the sources. Same-list move: remove the element at \<open>fromIndex\<close>, reinsert it at
  \<open>toIndex\<close> within the same ordered list; out-of-range indices are clamped, here to the
  positions of the list.
\<close>

definition moveItemInArray :: "'a list \<Rightarrow> int \<Rightarrow> int \<Rightarrow> 'a list" where
  "moveItemInArray array fromIndex toIndex =
     (let from = nat (clamp fromIndex (int (length array) - 1));
          to = nat (clamp toIndex (int (length array) - 1))
      in if array = [] \<or> from = to then array
         else spliceIn to (array ! from) (spliceOut from array))"

text \<open>
  Modelled from the spec: \<open>transferArrayItem\<close> of the drag-drop library, which is not part
  of the sources. Cross-list transfer: remove the element at \<open>fromIndex\<close> from list A,
  insert it at \<open>toIndex\<close>, clamped to \<open>[0, length(B)]\<close>, into list B; \<open>fromIndex\<close> is
  clamped to the positions of A, and nothing moves when A is empty.
\<close>

definition transferArrayItem :: "'a list \<Rightarrow> 'a list \<Rightarrow> int \<Rightarrow> int \<Rightarrow> 'a list \<times> 'a list" where
  "transferArrayItem currentArray targetArray fromIndex toIndex =
     (let from = nat (clamp fromIndex (int (length currentArray) - 1));
          to = nat (clamp toIndex (int (length targetArray)))
      in if currentArray = [] then (currentArray, targetArray)
         else (spliceOut from currentArray, spliceIn to (currentArray ! from) targetArray))"

text \<open>\<open>findIndex\<close> and \<open>indexOf\<close>, with \<open>None\<close> for \<open>-1\<close>.\<close>

fun findIndex :: "('a \<Rightarrow> bool) \<Rightarrow> 'a list \<Rightarrow> nat option" where
  "findIndex P [] = None"
| "findIndex P (x # xs) =
     (if P x then Some 0 else (case findIndex P xs of None \<Rightarrow> None | Some i \<Rightarrow> Some (Suc i)))"

section \<open>Calendar component\<close>

record CalendarComponent =
  weekStart :: Date
  dayTasks :: "CalendarTask list list"

definition setDayIndex :: "int \<Rightarrow> CalendarTask \<Rightarrow> CalendarTask" where
  "setDayIndex i task = task\<lparr>ct_dayIndex := i\<rparr>"

text \<open>
  \<open>onDrop\<close> of the first revision (part 001). The two drop lists are day lists of the
  component; an event naming any other list leaves the day lists alone. The result is the
  component and local storage.
\<close>

definition onDrop_p1 ::
  "int \<Rightarrow> CalendarTask CdkDragDrop \<Rightarrow> int \<Rightarrow> CalendarComponent \<times> localStorage
     \<Rightarrow> CalendarComponent \<times> localStorage" where
  "onDrop_p1 tz event targetDayIndex s =
     (case s of (cal, ls) \<Rightarrow>
        (let droppedTask = item_data event;
             oldDayIndex = ct_dayIndex droppedTask;
             p = previousContainer event;
             c = container event;
             days = dayTasks cal;
             days1 =
               (if \<not> (p < length days \<and> c < length days) then days
                else if p = c then
                  days[c := map (setDayIndex targetDayIndex)
                              (moveItemInArray (days ! c) (previousIndex event) (currentIndex event))]
                else
                  (case transferArrayItem (days ! p) (days ! c) (previousIndex event) (currentIndex event) of
                     (src, tgt) \<Rightarrow>
                       days[c := map (setDayIndex targetDayIndex) tgt,
                            p := map (setDayIndex (int p)) src]));
             droppedTask1 = setDayIndex targetDayIndex droppedTask;
             ls1 = (if oldDayIndex \<noteq> targetDayIndex
                    then updateKanbanTaskDate_p1 tz (weekStart cal) droppedTask1 targetDayIndex ls
                    else ls)
         in (cal\<lparr>dayTasks := days1\<rparr>, ls1)))"

text \<open>
  \<open>onDrop\<close> of the other revision (part 000), up to the refresh it schedules with
  \<open>setTimeout\<close>. It sets the day index of the tasks of the target list, and passes to
  \<open>updateKanbanTaskDate\<close>, \<open>targetDayIndex + 1\<close>.
\<close>

definition onDrop_p0 ::
  "int \<Rightarrow> CalendarTask CdkDragDrop \<Rightarrow> int \<Rightarrow> CalendarComponent \<times> localStorage
     \<Rightarrow> CalendarComponent \<times> localStorage" where
  "onDrop_p0 tz event targetDayIndex s =
     (case s of (cal, ls) \<Rightarrow>
        (let draggedTask = item_data event;
             oldDayIndex = ct_dayIndex draggedTask;
             p = previousContainer event;
             c = container event;
             days = dayTasks cal;
             days1 =
               (if \<not> (p < length days \<and> c < length days) then days
                else
                  (let sourceList = days ! p;
                       targetList = days ! c;
                       actualSourceIndex = findIndex (\<lambda>task. ct_id task = ct_id draggedTask) sourceList;
                       actualTargetIndex = currentIndex event;
                       actualTargetIndex = (if actualTargetIndex > int (length targetList)
                                            then int (length targetList) else actualTargetIndex);
                       actualTargetIndex = (if actualTargetIndex < 0 then 0 else actualTargetIndex)
                   in if p = c then
                        (case actualSourceIndex of
                           None \<Rightarrow> days[c := map (setDayIndex (targetDayIndex + 1)) targetList]
                         | Some i \<Rightarrow>
                             days[c := map (setDayIndex (targetDayIndex + 1))
                                         (spliceIn (nat actualTargetIndex) draggedTask (spliceOut i sourceList))])
                      else
                        (case actualSourceIndex of
                           None \<Rightarrow>
                             days[c := map (setDayIndex (targetDayIndex + 1)) targetList,
                                  p := map (setDayIndex (int p)) sourceList]
                         | Some i \<Rightarrow>
                             days[c := map (setDayIndex (targetDayIndex + 1))
                                         (spliceIn (nat actualTargetIndex) draggedTask targetList),
                                  p := map (setDayIndex (int p)) (spliceOut i sourceList)])));
             draggedTask1 = setDayIndex (targetDayIndex + 1) draggedTask;
             ls1 = (if oldDayIndex \<noteq> targetDayIndex + 1
                    then updateKanbanTaskDate_p0 tz (weekStart cal) draggedTask1 (targetDayIndex + 1) ls
                    else ls)
         in (cal\<lparr>dayTasks := days1\<rparr>, ls1)))"

section \<open>Board component\<close>

text \<open>
  The board holds task objects that several fields refer to: \<open>editingTask\<close> is a
  reference to an element of some column's \<open>tasks\<close>, and \<open>saveTask\<close> finds that column by
  the identity of the object. The model keeps the objects in a store \<open>objects\<close> from
  references to tasks; a column lists references, and \<open>nextObject\<close> is the next unused one.
  \<open>currentColumn\<close> refers to a column object, of which \<open>saveTask\<close> only reads the id, so
  the model keeps that id. The value of the form and its validity are inputs of
  \<open>saveTask\<close>, as is the id \<open>crypto.randomUUID\<close> gives a new task.
\<close>

record TaskFormValue =
  v_title :: string
  v_description :: string
  v_priority :: Priority
  v_dueDate :: jsstr
  v_assignee :: jsstr
  v_statusId :: "string option"
  v_estimatedTimeHours :: jsnum
  v_scheduleDate :: jsstr
  v_type :: jsstr

record AppComponent =
  columns :: "nat Column list"
  objects :: "nat \<Rightarrow> Task"
  nextObject :: nat
  taskTypes :: "TaskType list"
  showTaskModal :: bool
  currentColumn :: "string option"
  editingTask :: "nat option"
  selectedStatusId :: "string option"

definition initializeBoard :: "AppComponent \<Rightarrow> AppComponent" where
  "initializeBoard st =
     st\<lparr>columns :=
          [\<lparr>c_id = ''new'', c_title = ''New task'', c_tasks = []\<rparr>,
           \<lparr>c_id = ''scheduled'', c_title = ''Scheduled'', c_tasks = []\<rparr>,
           \<lparr>c_id = ''inprogress'', c_title = ''In Progress'', c_tasks = []\<rparr>,
           \<lparr>c_id = ''completed'', c_title = ''Completed'', c_tasks = []\<rparr>]\<rparr>"

text \<open>\<open>JSON.stringify(this.columns)\<close>: every reference is replaced by the task it refers to.\<close>

definition storedColumn :: "(nat \<Rightarrow> Task) \<Rightarrow> nat Column \<Rightarrow> Task Column" where
  "storedColumn h c = \<lparr>c_id = c_id c, c_title = c_title c, c_tasks = map h (c_tasks c)\<rparr>"

definition saveToLocalStorage :: "AppComponent \<Rightarrow> localStorage \<Rightarrow> localStorage" where
  "saveToLocalStorage st ls = ls\<lparr>kanbanBoard := Json (map (storedColumn (objects st)) (columns st))\<rparr>"

text \<open>\<open>JSON.parse\<close> builds a new object for every task of the stored board.\<close>

fun allocTasks :: "Task list \<Rightarrow> nat \<Rightarrow> (nat \<Rightarrow> Task) \<Rightarrow> nat list \<times> nat \<times> (nat \<Rightarrow> Task)" where
  "allocTasks [] n h = ([], n, h)"
| "allocTasks (t # ts) n h =
     (case allocTasks ts (Suc n) (h(n := t)) of (refs, n', h') \<Rightarrow> (n # refs, n', h'))"

fun allocColumns ::
  "Task Column list \<Rightarrow> nat \<Rightarrow> (nat \<Rightarrow> Task) \<Rightarrow> nat Column list \<times> nat \<times> (nat \<Rightarrow> Task)" where
  "allocColumns [] n h = ([], n, h)"
| "allocColumns (c # cs) n h =
     (case allocTasks (c_tasks c) n h of (refs, n1, h1) \<Rightarrow>
        (case allocColumns cs n1 h1 of (cs', n2, h2) \<Rightarrow>
           (\<lparr>c_id = c_id c, c_title = c_title c, c_tasks = refs\<rparr> # cs', n2, h2)))"

text \<open>
  \<open>loadFromLocalStorage\<close> (both revisions agree) calls \<open>JSON.parse\<close> outside of any
  \<open>try\<close> block.
\<close>

definition loadFromLocalStorage :: "localStorage \<Rightarrow> AppComponent \<Rightarrow> AppComponent outcome" where
  "loadFromLocalStorage ls st =
     (case kanbanBoard ls of
        NoItem \<Rightarrow> Returns st
      | EmptyText \<Rightarrow> Returns st
      | Malformed savedBoard \<Rightarrow> Throws SyntaxError st
      | Json board \<Rightarrow>
          (case allocColumns board (nextObject st) (objects st) of (cols, n, h) \<Rightarrow>
             Returns (st\<lparr>columns := cols, nextObject := n, objects := h\<rparr>)))"

text \<open>\<open>loadTaskTypes\<close> (both revisions agree) catches the error and logs it.\<close>

definition loadTaskTypes :: "localStorage \<Rightarrow> AppComponent \<Rightarrow> AppComponent" where
  "loadTaskTypes ls st =
     (case taskTypesItem ls of
        NoItem \<Rightarrow> st
      | EmptyText \<Rightarrow> st
      | Malformed saved \<Rightarrow> st
      | Json types \<Rightarrow> st\<lparr>taskTypes := types\<rparr>)"

definition ngOnInit :: "localStorage \<Rightarrow> AppComponent \<Rightarrow> AppComponent outcome" where
  "ngOnInit ls st = loadFromLocalStorage ls (initializeBoard (loadTaskTypes ls st))"

text \<open>
  \<open>drop\<close> (both revisions agree). The two drop lists are columns of the board; an event
  naming any other list leaves the columns alone.
\<close>

definition drop_board :: "'a CdkDragDrop \<Rightarrow> AppComponent \<times> localStorage \<Rightarrow> AppComponent \<times> localStorage" where
  "drop_board event s =
     (case s of (st, ls) \<Rightarrow>
        (let p = previousContainer event;
             c = container event;
             cols = columns st;
             cols1 =
               (if \<not> (p < length cols \<and> c < length cols) then cols
                else if p = c then
                  cols[c := (cols ! c)\<lparr>c_tasks :=
                          moveItemInArray (c_tasks (cols ! c)) (previousIndex event) (currentIndex event)\<rparr>]
                else
                  (case transferArrayItem (c_tasks (cols ! p)) (c_tasks (cols ! c))
                          (previousIndex event) (currentIndex event) of
                     (src, tgt) \<Rightarrow>
                       cols[p := (cols ! p)\<lparr>c_tasks := src\<rparr>, c := (cols ! c)\<lparr>c_tasks := tgt\<rparr>]));
             st1 = st\<lparr>columns := cols1\<rparr>
         in (st1, saveToLocalStorage st1 ls)))"

definition closeTaskModal :: "AppComponent \<Rightarrow> AppComponent" where
  "closeTaskModal st =
     st\<lparr>showTaskModal := False, editingTask := None, currentColumn := None, selectedStatusId := None\<rparr>"

text \<open>
  \<open>editTask(task, column)\<close> (both revisions agree on these fields) is the only method
  that sets \<open>editingTask\<close>; it sets \<open>currentColumn\<close> to the column it is handed, which
  is the one that holds the task. Filling the form is left to the form layer.
\<close>

definition editTask :: "nat \<Rightarrow> 'a Column \<Rightarrow> AppComponent \<Rightarrow> AppComponent" where
  "editTask task column st =
     st\<lparr>editingTask := Some task,
        currentColumn := Some (c_id column),
        selectedStatusId := Some (c_id column),
        showTaskModal := True\<rparr>"

text \<open>\<open>Object.assign(this.editingTask, {...})\<close> and the object literal \<open>newTask\<close>.\<close>

definition assignTask :: "TaskFormValue \<Rightarrow> Task \<Rightarrow> Task" where
  "assignTask v task =
     task\<lparr>t_title := v_title v,
          t_description := v_description v,
          t_priority := v_priority v,
          t_dueDate := v_dueDate v,
          t_assignee := v_assignee v,
          t_estimatedTimeHours := v_estimatedTimeHours v,
          t_scheduleDate := v_scheduleDate v,
          t_type := v_type v\<rparr>"

definition newTask :: "string \<Rightarrow> TaskFormValue \<Rightarrow> Task" where
  "newTask freshId v =
     \<lparr>t_id = freshId,
      t_title = v_title v,
      t_description = v_description v,
      t_priority = v_priority v,
      t_dueDate = v_dueDate v,
      t_assignee = v_assignee v,
      t_estimatedTimeHours = v_estimatedTimeHours v,
      t_scheduleDate = v_scheduleDate v,
      t_type = v_type v\<rparr>"

text \<open>
  The destination column of \<open>saveTask\<close>, as its position in \<open>columns\<close>:
  \<open>currentColumn?.id ?? v.statusId ?? selectedStatusId ?? columns[0]?.id\<close>, looked up with
  \<open>find\<close>, and \<open>columns[0]\<close> when nothing is found. \<open>None\<close> is \<open>undefined\<close>.
\<close>

definition destinationColumn :: "AppComponent \<Rightarrow> TaskFormValue \<Rightarrow> nat option" where
  "destinationColumn st v =
     (let destinationColumnId =
            (case currentColumn st of
               Some i \<Rightarrow> Some i
             | None \<Rightarrow>
                 (case v_statusId v of
                    Some i \<Rightarrow> Some i
                  | None \<Rightarrow>
                      (case selectedStatusId st of
                         Some i \<Rightarrow> Some i
                       | None \<Rightarrow> (case columns st of [] \<Rightarrow> None | c # cs \<Rightarrow> Some (c_id c)))))
      in case findIndex (\<lambda>c. Some (c_id c) = destinationColumnId) (columns st) of
           Some i \<Rightarrow> Some i
         | None \<Rightarrow> (if columns st = [] then None else Some 0))"

text \<open>\<open>this.columns.find(c => c.tasks.includes(this.editingTask))\<close>, as a position.\<close>

definition originalColumn :: "AppComponent \<Rightarrow> nat \<Rightarrow> nat option" where
  "originalColumn st e = findIndex (\<lambda>c. e \<in> set (c_tasks c)) (columns st)"

definition pushTask :: "nat \<Rightarrow> 'a \<Rightarrow> 'a Column list \<Rightarrow> 'a Column list" where
  "pushTask i x cols = cols[i := (cols ! i)\<lparr>c_tasks := c_tasks (cols ! i) @ [x]\<rparr>]"

text \<open>
  \<open>saveTask\<close> of the first revision of \<open>app.component.ts\<close>: an edit assigns the fields of
  the task and does nothing to the columns. Pushing a new task onto an undefined
  destination (a board without columns) is a \<open>TypeError\<close>.
\<close>

definition saveTask_v1 ::
  "bool \<Rightarrow> TaskFormValue \<Rightarrow> string \<Rightarrow> AppComponent \<times> localStorage
     \<Rightarrow> (AppComponent \<times> localStorage) outcome" where
  "saveTask_v1 invalid v freshId s =
     (case s of (st, ls) \<Rightarrow>
        if invalid then Returns (st, ls)
        else
          (case editingTask st of
             Some e \<Rightarrow>
               (let st1 = st\<lparr>objects := (objects st)(e := assignTask v (objects st e))\<rparr>
                in Returns (closeTaskModal st1, saveToLocalStorage st1 ls))
           | None \<Rightarrow>
               (case destinationColumn st v of
                  None \<Rightarrow> Throws TypeError (st, ls)
                | Some di \<Rightarrow>
                    (let a = nextObject st;
                         st1 = st\<lparr>objects := (objects st)(a := newTask freshId v),
                                  nextObject := Suc a,
                                  columns := pushTask di a (columns st)\<rparr>
                     in Returns (closeTaskModal st1, saveToLocalStorage st1 ls)))))"

text \<open>
  \<open>saveTask\<close> of the second revision: after assigning the fields, an edit moves the task
  when the destination column and the column that holds the task have different ids.
\<close>

definition moveEdited :: "nat \<Rightarrow> nat option \<Rightarrow> nat option \<Rightarrow> nat Column list \<Rightarrow> nat Column list" where
  "moveEdited e orig dest cols =
     (case orig of
        None \<Rightarrow> cols
      | Some oi \<Rightarrow>
          (case dest of
             None \<Rightarrow> cols
           | Some di \<Rightarrow>
               if c_id (cols ! di) \<noteq> c_id (cols ! oi) then
                 (case findIndex (\<lambda>x. x = e) (c_tasks (cols ! oi)) of
                    None \<Rightarrow> cols
                  | Some fromIndex \<Rightarrow>
                      pushTask di e
                        (cols[oi := (cols ! oi)\<lparr>c_tasks := spliceOut fromIndex (c_tasks (cols ! oi))\<rparr>]))
               else cols))"

definition saveTask_v2 ::
  "bool \<Rightarrow> TaskFormValue \<Rightarrow> string \<Rightarrow> AppComponent \<times> localStorage
     \<Rightarrow> (AppComponent \<times> localStorage) outcome" where
  "saveTask_v2 invalid v freshId s =
     (case s of (st, ls) \<Rightarrow>
        if invalid then Returns (st, ls)
        else
          (case editingTask st of
             Some e \<Rightarrow>
               (let orig = originalColumn st e;
                    st1 = st\<lparr>objects := (objects st)(e := assignTask v (objects st e))\<rparr>;
                    st2 = st1\<lparr>columns := moveEdited e orig (destinationColumn st v) (columns st1)\<rparr>
                in Returns (closeTaskModal st2, saveToLocalStorage st2 ls))
           | None \<Rightarrow>
               (case destinationColumn st v of
                  None \<Rightarrow> Throws TypeError (st, ls)
                | Some di \<Rightarrow>
                    (let a = nextObject st;
                         st1 = st\<lparr>objects := (objects st)(a := newTask freshId v),
                                  nextObject := Suc a,
                                  columns := pushTask di a (columns st)\<rparr>
                     in Returns (closeTaskModal st1, saveToLocalStorage st1 ls)))))"

text \<open>The task references of a board, over all its columns.\<close>

definition refsOf :: "'a Column list \<Rightarrow> 'a multiset" where
  "refsOf cols = mset (concat (map c_tasks cols))"

text \<open>The state a method leaves behind.\<close>

fun stateOf :: "'s outcome \<Rightarrow> 's" where
  "stateOf (Returns s) = s"
| "stateOf (Throws e s) = s"

section \<open>Example data\<close>

text \<open>
  The task \<open>T\<close> of the specification's scenarios: due on Monday 2024-06-03, with no
  \<open>scheduleDate\<close>, no \<open>estimatedTimeHours\<close> and no \<open>type\<close> property.
\<close>

definition taskT :: Task where
  "taskT =
     \<lparr>t_id = ''T'', t_title = ''Write report'', t_description = ''Quarterly report'',
      t_priority = medium, t_dueDate = Str ''2024-06-03'', t_assignee = Undefined,
      t_estimatedTimeHours = NUndefined, t_scheduleDate = Undefined, t_type = Undefined\<rparr>"

text \<open>The catalog after the user has renamed its first entry to "Ops".\<close>

definition renamedTypes :: "TaskType list" where
  "renamedTypes = onType (updateTypeName '' Ops '') 0 defaultTaskTypes"

text \<open>
  The component as its field initialisers leave it, a stored board with the columns
  "New task", holding \<open>T\<close>, and "Completed", holding two more tasks, and the board after
  \<open>ngOnInit\<close> has loaded it. The form value names the column \<open>completed\<close> as the status.
\<close>

definition newComponent :: AppComponent where
  "newComponent =
     \<lparr>columns = [],
      objects = (\<lambda>r. taskT),
      nextObject = 0,
      taskTypes = defaultTaskTypes,
      showTaskModal = False,
      currentColumn = None,
      editingTask = None,
      selectedStatusId = None\<rparr>"

definition storeEx :: localStorage where
  "storeEx =
     \<lparr>kanbanBoard =
        Json [\<lparr>c_id = ''new'', c_title = ''New task'', c_tasks = [taskT]\<rparr>,
              \<lparr>c_id = ''completed'', c_title = ''Completed'',
               c_tasks = [taskT\<lparr>t_id := ''A''\<rparr>, taskT\<lparr>t_id := ''B''\<rparr>]\<rparr>],
      taskTypesItem = NoItem\<rparr>"

definition boardEx :: AppComponent where
  "boardEx = stateOf (ngOnInit storeEx newComponent)"

definition formEx :: TaskFormValue where
  "formEx =
     \<lparr>v_title = ''Write report'', v_description = ''Quarterly report'', v_priority = high,
      v_dueDate = Str ''2024-06-03'', v_assignee = Null, v_statusId = Some ''completed'',
      v_estimatedTimeHours = Num 0, v_scheduleDate = Null, v_type = Str ''operational''\<rparr>"

text \<open>
  A stored board with the columns "New task", holding a given task, and "Scheduled"; the
  Monday of the week of Wednesday 2024-06-05 at a given offset of local time; the calendar
  showing that week; and the drop of the calendar task of \<open>T\<close> from the list of day
  \<open>p\<close> on the list of day \<open>c\<close>.
\<close>

definition storeOf :: "Task \<Rightarrow> localStorage" where
  "storeOf t =
     \<lparr>kanbanBoard = Json [\<lparr>c_id = ''new'', c_title = ''New task'', c_tasks = [t]\<rparr>,
                           \<lparr>c_id = ''scheduled'', c_title = ''Scheduled'', c_tasks = []\<rparr>],
      taskTypesItem = NoItem\<rparr>"

definition weekOfJune3 :: "int \<Rightarrow> Date" where
  "weekOfJune3 tz = getStartOfWeek tz (day_of_ymd 2024 6 5 * msPerDay)"

definition calendarOf :: "int \<Rightarrow> localStorage \<Rightarrow> CalendarComponent" where
  "calendarOf tz ls =
     \<lparr>weekStart = weekOfJune3 tz,
      dayTasks = refreshCalendarFromStorage parseDateOnly tz (weekOfJune3 tz) ls\<rparr>"

definition dragT :: "int \<Rightarrow> nat \<Rightarrow> nat \<Rightarrow> CalendarTask CdkDragDrop" where
  "dragT dayIndex p c =
     \<lparr>previousContainer = p, container = c, previousIndex = 0, currentIndex = 0,
      item_data = calendarTaskOf taskT dayIndex\<rparr>"

text \<open>The offset of a zone five and a half hours east of UTC.\<close>

definition tzEast :: int where
  "tzEast = 19800000"

text \<open>The offset of a zone four hours west of UTC.\<close>

definition tzWest :: int where
  "tzWest = - 14400000"

section \<open>Properties of the task type catalog\<close>

text \<open>
  C7. Toggling "usable for tasks" from off to on sets \<open>forTasks\<close> and forces \<open>enabled\<close> to
  true; toggling it from on to off, and toggling \<open>forEvents\<close>, leave \<open>enabled\<close> as it was.
  This holds for the entry itself and for the catalog it sits in, whose other entries are
  untouched.
\<close>

theorem toggle_forTasks_coupling:
  "(\<not> tt_forTasks ty \<longrightarrow> tt_forTasks (toggleTypeForTasks ty) \<and> tt_enabled (toggleTypeForTasks ty))
   \<and> (tt_forTasks ty \<longrightarrow> \<not> tt_forTasks (toggleTypeForTasks ty)
         \<and> tt_enabled (toggleTypeForTasks ty) = tt_enabled ty)
   \<and> tt_enabled (toggleTypeForEvents ty) = tt_enabled ty
   \<and> (i < length tys \<longrightarrow>
         onType toggleTypeForTasks i tys ! i = toggleTypeForTasks (tys ! i)
         \<and> (\<forall>j < length tys. j \<noteq> i \<longrightarrow> onType toggleTypeForTasks i tys ! j = tys ! j)
         \<and> map tt_enabled (onType toggleTypeForEvents i tys) = map tt_enabled tys)"
  by (auto simp: toggleTypeForTasks_def toggleTypeForEvents_def onType_def Let_def map_update
      list_update_same_conv)

theorem toggle_forTasks_coupling_witness:
  "tt_enabled (onType toggleTypeForTasks 5 defaultTaskTypes ! 5)
   \<and> tt_forTasks (onType toggleTypeForTasks 5 defaultTaskTypes ! 5)
   \<and> \<not> tt_enabled (defaultTaskTypes ! 5)
   \<and> \<not> tt_forTasks (toggleTypeForTasks (defaultTaskTypes ! 0))
   \<and> tt_enabled (toggleTypeForTasks (defaultTaskTypes ! 0))
   \<and> onType toggleTypeForTasks 5 defaultTaskTypes ! 6 = defaultTaskTypes ! 6"
proof -
  have len: "(5::nat) < length defaultTaskTypes"
    by (simp add: defaultTaskTypes_def)
  have off: "\<not> tt_forTasks (defaultTaskTypes ! 5)" "\<not> tt_enabled (defaultTaskTypes ! 5)"
    by (simp_all add: defaultTaskTypes_def mkType_def)
  have on: "tt_forTasks (defaultTaskTypes ! 0)" "tt_enabled (defaultTaskTypes ! 0)"
    by (simp_all add: defaultTaskTypes_def mkType_def)
  have six: "(6::nat) < length defaultTaskTypes" "(6::nat) \<noteq> 5"
    by (simp_all add: defaultTaskTypes_def)
  note a = toggle_forTasks_coupling [of "defaultTaskTypes ! 5" 5 defaultTaskTypes]
  note b = toggle_forTasks_coupling [of "defaultTaskTypes ! 0" 5 defaultTaskTypes]
  from a off len six on b show ?thesis by metis
qed

lemma calendarTypes_nonempty:
  "e \<in> set calendarTypes \<Longrightarrow> cty_color e \<noteq> [] \<and> cty_name e \<noteq> []"
  by (auto simp: calendarTypes_def mkCalType_def)

lemma find_None_ids: "find (\<lambda>t. f t = k) xs = None \<longleftrightarrow> k \<notin> f ` set xs"
  by (auto simp: find_None_iff)

lemma find_Some_mem: "find P xs = Some e \<Longrightarrow> e \<in> set xs \<and> P e"
  by (auto simp: find_Some_iff)

text \<open>
  C5, as amended. Looking a type up never fails. An id that matches no entry of the
  catalog resolves to the fixed default: color \<open>#2f6fec\<close>, name \<open>Operational\<close>. An id
  that is in the catalog resolves to the color and name of the first entry with that id.
  A task whose \<open>type\<close> is missing, \<open>null\<close> or empty is looked up under the id
  \<open>operational\<close>, so it gets the catalog's entry of that id when there is one, and the
  fixed default only otherwise. The calendar's lookup by id behaves the same on its own
  catalog.
\<close>

theorem type_lookup_resolves:
  "(typeKey task \<notin> tt_id ` set tys \<longrightarrow>
      getTaskTypeColor tys task = ''#2f6fec'' \<and> getTaskTypeName tys task = ''Operational'')
   \<and> (find (\<lambda>t. tt_id t = typeKey task) tys = Some e \<longrightarrow>
        getTaskTypeColor tys task = tt_color e \<and> getTaskTypeName tys task = tt_name e)
   \<and> (typeKey task \<in> tt_id ` set tys \<longrightarrow>
        (\<exists>e. find (\<lambda>t. tt_id t = typeKey task) tys = Some e \<and> e \<in> set tys
             \<and> tt_id e = typeKey task))
   \<and> (truthy (t_type task) \<longrightarrow> t_type task = Str (typeKey task))
   \<and> (\<not> truthy (t_type task) \<longrightarrow> typeKey task = ''operational'')
   \<and> (typeId \<notin> cty_id ` set calendarTypes \<longrightarrow>
        getTypeColor calendarTypes typeId = ''#2f6fec'' \<and> getTypeName calendarTypes typeId = ''Operational'')
   \<and> (find (\<lambda>t. cty_id t = typeId) calendarTypes = Some c \<longrightarrow>
        getTypeColor calendarTypes typeId = cty_color c \<and> getTypeName calendarTypes typeId = cty_name c)"
proof -
  have unknown: "typeKey task \<notin> tt_id ` set tys \<longrightarrow>
      getTaskTypeColor tys task = ''#2f6fec'' \<and> getTaskTypeName tys task = ''Operational''"
    by (simp add: getTaskTypeColor_def getTaskTypeName_def find_None_ids [symmetric])
  have known: "find (\<lambda>t. tt_id t = typeKey task) tys = Some e \<longrightarrow>
        getTaskTypeColor tys task = tt_color e \<and> getTaskTypeName tys task = tt_name e"
    by (simp add: getTaskTypeColor_def getTaskTypeName_def)
  have ex: "typeKey task \<in> tt_id ` set tys \<longrightarrow>
        (\<exists>e. find (\<lambda>t. tt_id t = typeKey task) tys = Some e \<and> e \<in> set tys
             \<and> tt_id e = typeKey task)"
  proof
    assume "typeKey task \<in> tt_id ` set tys"
    then have "find (\<lambda>t. tt_id t = typeKey task) tys \<noteq> None"
      by (simp add: find_None_ids)
    then obtain e where "find (\<lambda>t. tt_id t = typeKey task) tys = Some e" by auto
    then show "\<exists>e. find (\<lambda>t. tt_id t = typeKey task) tys = Some e \<and> e \<in> set tys
             \<and> tt_id e = typeKey task"
      using find_Some_mem [of "\<lambda>t. tt_id t = typeKey task" tys e] by simp
  qed
  have key1: "truthy (t_type task) \<longrightarrow> t_type task = Str (typeKey task)"
    by (cases "t_type task") (simp_all add: typeKey_def)
  have key2: "\<not> truthy (t_type task) \<longrightarrow> typeKey task = ''operational''"
    by (simp add: typeKey_def)
  have cal1: "typeId \<notin> cty_id ` set calendarTypes \<longrightarrow>
        getTypeColor calendarTypes typeId = ''#2f6fec'' \<and> getTypeName calendarTypes typeId = ''Operational''"
    by (simp add: getTypeColor_def getTypeName_def find_None_ids [symmetric])
  have cal2: "find (\<lambda>t. cty_id t = typeId) calendarTypes = Some c \<longrightarrow>
        getTypeColor calendarTypes typeId = cty_color c \<and> getTypeName calendarTypes typeId = cty_name c"
  proof
    assume f: "find (\<lambda>t. cty_id t = typeId) calendarTypes = Some c"
    then have "c \<in> set calendarTypes" using find_Some_mem by fastforce
    then have "cty_color c \<noteq> [] \<and> cty_name c \<noteq> []" by (rule calendarTypes_nonempty)
    with f show "getTypeColor calendarTypes typeId = cty_color c \<and> getTypeName calendarTypes typeId = cty_name c"
      by (simp add: getTypeColor_def getTypeName_def)
  qed
  from unknown known ex key1 key2 cal1 cal2 show ?thesis by blast
qed

lemma renamed_find: "find (\<lambda>t. tt_id t = typeKey taskT) renamedTypes
    = Some (mkType ''operational'' ''Ops'' ''#2f6fec'' True True False)"
  by code_simp

text \<open>
  The claim as stated promises the name \<open>Operational\<close> for every absent type id. Once
  the entry \<open>operational\<close> has been renamed, a task without a type gets the new name.
\<close>

theorem type_lookup_absent_counterexample:
  "t_type taskT = Undefined \<and> getTaskTypeName renamedTypes taskT = ''Ops''
   \<and> getTaskTypeName renamedTypes taskT \<noteq> ''Operational''"
  by code_simp

theorem type_lookup_resolves_witness:
  "\<not> truthy (t_type taskT) \<and> typeKey taskT = ''operational''
   \<and> getTaskTypeName renamedTypes taskT = ''Ops'' \<and> getTaskTypeColor renamedTypes taskT = ''#2f6fec''
   \<and> ''nosuchtype'' \<notin> cty_id ` set calendarTypes
   \<and> getTypeColor calendarTypes ''nosuchtype'' = ''#2f6fec''
   \<and> typeKey (taskT\<lparr>t_type := Str ''nosuchtype''\<rparr>) \<notin> tt_id ` set defaultTaskTypes
   \<and> getTaskTypeName defaultTaskTypes (taskT\<lparr>t_type := Str ''nosuchtype''\<rparr>) = ''Operational''"
proof -
  have a: "\<not> truthy (t_type taskT)" by (simp add: taskT_def)
  have b: "''nosuchtype'' \<notin> cty_id ` set calendarTypes"
    by (simp add: calendarTypes_def mkCalType_def)
  have c: "typeKey (taskT\<lparr>t_type := Str ''nosuchtype''\<rparr>) \<notin> tt_id ` set defaultTaskTypes"
    by (simp add: typeKey_def defaultTaskTypes_def mkType_def)
  note t1 = type_lookup_resolves [of taskT renamedTypes
      "mkType ''operational'' ''Ops'' ''#2f6fec'' True True False" "''nosuchtype''"]
  note t2 = type_lookup_resolves [of "taskT\<lparr>t_type := Str ''nosuchtype''\<rparr>" defaultTaskTypes]
  have d: "tt_name (mkType ''operational'' ''Ops'' ''#2f6fec'' True True False) = ''Ops''"
          "tt_color (mkType ''operational'' ''Ops'' ''#2f6fec'' True True False) = ''#2f6fec''"
    by (simp_all add: mkType_def)
  from t1 t2 a b c d renamed_find show ?thesis by metis
qed
section \<open>Properties of the week start\<close>

text \<open>The calendar functions on known dates; 2024-06-03 was a Monday.\<close>

lemma calendar_examples:
  "ymd_of_day 0 = (1970, 1, 1)"
  "ymd_of_day (day_of_ymd 2024 2 29) = (2024, 2, 29)"
  "ymd_of_day (day_of_ymd 2024 6 3) = (2024, 6, 3)"
  "getDay 0 (day_of_ymd 2024 6 3 * msPerDay) = 1"
  "isoDate (day_of_ymd 2024 6 3 * msPerDay) = ''2024-06-03''"
  "parseDateOnly ''2024-06-03'' = Some (day_of_ymd 2024 6 3 * msPerDay)"
  "parseDateOnly ''2024-02-30'' = None"
  "weekOfJune3 0 = day_of_ymd 2024 6 3 * msPerDay"
  "weekOfJune3 tzEast = day_of_ymd 2024 6 3 * msPerDay - tzEast"
  by code_simp+

lemma setDate_getDate: "setDate tz t (getDate tz t + k) = t + k * msPerDay"
  by (simp add: setDate_def)

lemma Day_shift: "Day (t + k * msPerDay) = Day t + k"
  by (simp add: Day_def msPerDay_def)

lemma Day_mult: "Day (k * msPerDay) = k"
  by (simp add: Day_def msPerDay_def)

lemma getStartOfWeek_eq:
  "getStartOfWeek tz d = (Day (d + tz) - (Day (d + tz) + 3) mod 7) * msPerDay - tz"
proof -
  let ?D = "Day (d + tz)"
  let ?w = "(getDay tz d + 6) mod 7"
  have w: "?w = (?D + 3) mod 7"
    unfolding getDay_def by presburger
  have "setDate tz d (getDate tz d - ?w) = d + (- ?w) * msPerDay"
    using setDate_getDate [of tz d "- ?w"] by simp
  moreover have "Day (d + (- ?w) * msPerDay + tz) = ?D - ?w"
    using Day_shift [of "d + tz" "- ?w"] by (simp add: algebra_simps)
  ultimately show ?thesis
    by (simp add: getStartOfWeek_def Let_def setHours0_def w)
qed

lemma Day_getStartOfWeek:
  "Day (getStartOfWeek tz d + tz) = Day (d + tz) - (Day (d + tz) + 3) mod 7"
  by (simp add: getStartOfWeek_eq Day_mult)

lemma Day_bounds: "Day t * msPerDay \<le> t \<and> t < (Day t + 1) * msPerDay"
proof -
  have "t = Day t * msPerDay + t mod msPerDay"
    by (simp add: Day_def)
  moreover have "0 \<le> t mod msPerDay" "t mod msPerDay < msPerDay"
    by (simp_all add: msPerDay_def)
  ultimately show ?thesis by (simp add: algebra_simps)
qed

text \<open>
  C10. For every date \<open>d\<close> and every offset of local time, \<open>getStartOfWeek d\<close> is a
  Monday (\<open>getDay\<close> is 1) at local midnight, it is no later than \<open>d\<close>, its local day is
  at most 6 days before the local day of \<open>d\<close> (so less than 7 days of time lie between
  them), and applying \<open>getStartOfWeek\<close> to it returns it unchanged.
\<close>

theorem getStartOfWeek_monday_idempotent:
  "getDay tz (getStartOfWeek tz d) = 1
   \<and> (getStartOfWeek tz d + tz) mod msPerDay = 0
   \<and> getStartOfWeek tz d \<le> d
   \<and> d - getStartOfWeek tz d < 7 * msPerDay
   \<and> 0 \<le> Day (d + tz) - Day (getStartOfWeek tz d + tz)
   \<and> Day (d + tz) - Day (getStartOfWeek tz d + tz) \<le> 6
   \<and> getStartOfWeek tz (getStartOfWeek tz d) = getStartOfWeek tz d"
proof -
  let ?D = "Day (d + tz)"
  let ?w = "(?D + 3) mod 7"
  let ?r = "getStartOfWeek tz d"
  have r: "?r = (?D - ?w) * msPerDay - tz" by (rule getStartOfWeek_eq)
  have Dr: "Day (?r + tz) = ?D - ?w" by (rule Day_getStartOfWeek)
  have w: "0 \<le> ?w" "?w \<le> 6" by simp_all
  have monday: "getDay tz ?r = 1"
    unfolding getDay_def Dr by presburger
  have midnight: "(?r + tz) mod msPerDay = 0"
    by (simp add: r)
  have b: "?D * msPerDay \<le> d + tz" "d + tz < (?D + 1) * msPerDay"
    using Day_bounds [of "d + tz"] by simp_all
  have le: "?r \<le> d"
    using b w unfolding r msPerDay_def by simp
  have lt: "d - ?r < 7 * msPerDay"
    using b w unfolding r msPerDay_def by simp
  have zero: "(?D - ?w + 3) mod 7 = 0" by presburger
  have "getStartOfWeek tz ?r = (Day (?r + tz) - (Day (?r + tz) + 3) mod 7) * msPerDay - tz"
    by (rule getStartOfWeek_eq)
  also have "\<dots> = (?D - ?w) * msPerDay - tz"
    unfolding Dr zero by simp
  finally have idem: "getStartOfWeek tz ?r = ?r"
    using r by simp
  from monday midnight le lt w idem show ?thesis by (simp add: Dr)
qed
section \<open>Properties of the board\<close>

lemma mset_take_drop: "mset (take i xs) + mset (drop i xs) = mset xs"
proof -
  have "mset (take i xs) + mset (drop i xs) = mset (take i xs @ drop i xs)"
    by (simp only: mset_append)
  then show ?thesis by (simp only: append_take_drop_id)
qed

lemma mset_spliceIn: "mset (spliceIn i x xs) = add_mset x (mset xs)"
  by (simp add: spliceIn_def mset_take_drop)

lemma mset_spliceOut: "i < length xs \<Longrightarrow> add_mset (xs ! i) (mset (spliceOut i xs)) = mset xs"
proof -
  assume "i < length xs"
  then have "xs = take i xs @ xs ! i # drop (Suc i) xs"
    by (rule id_take_nth_drop)
  then have "mset xs = mset (take i xs @ xs ! i # drop (Suc i) xs)" by simp
  then show ?thesis by (simp add: spliceOut_def)
qed

lemma clamp_in_range: "xs \<noteq> [] \<Longrightarrow> nat (clamp v (int (length xs) - 1)) < length xs"
  by (cases xs) (auto simp: clamp_def)

lemma mset_moveItemInArray: "mset (moveItemInArray xs f t) = mset xs"
proof (cases "xs = []")
  case True
  then show ?thesis by (simp add: moveItemInArray_def)
next
  case False
  then have "nat (clamp f (int (length xs) - 1)) < length xs" by (rule clamp_in_range)
  then show ?thesis
    by (simp add: moveItemInArray_def Let_def mset_spliceIn mset_spliceOut)
qed

lemma mset_transferArrayItem:
  "transferArrayItem xs ys f t = (src, tgt) \<Longrightarrow> mset src + mset tgt = mset xs + mset ys"
proof (cases "xs = []")
  case True
  assume "transferArrayItem xs ys f t = (src, tgt)"
  with True show ?thesis by (simp add: transferArrayItem_def)
next
  case False
  assume a: "transferArrayItem xs ys f t = (src, tgt)"
  let ?i = "nat (clamp f (int (length xs) - 1))"
  from False have i: "?i < length xs" by (rule clamp_in_range)
  from a False have "src = spliceOut ?i xs" "\<exists>j. tgt = spliceIn j (xs ! ?i) ys"
    by (auto simp: transferArrayItem_def Let_def)
  then show ?thesis
    using mset_spliceOut [OF i] by (auto simp: mset_spliceIn)
qed

lemma refsOf_update:
  assumes "i < length cols"
  shows "refsOf (cols[i := c]) + mset (c_tasks (cols ! i)) = refsOf cols + mset (c_tasks c)"
proof -
  have "cols = take i cols @ cols ! i # drop (Suc i) cols"
    using assms by (rule id_take_nth_drop)
  then have "refsOf cols = refsOf (take i cols @ cols ! i # drop (Suc i) cols)" by simp
  moreover have "cols[i := c] = take i cols @ c # drop (Suc i) cols"
    using assms by (rule upd_conv_take_nth_drop)
  ultimately show ?thesis by (simp add: refsOf_def)
qed

lemma drop_board_refs:
  "refsOf (columns (fst (drop_board event s))) = refsOf (columns (fst s))
   \<and> objects (fst (drop_board event s)) = objects (fst s)"
proof -
  obtain st ls where s: "s = (st, ls)" by (cases s)
  let ?p = "previousContainer event" and ?c = "container event"
  let ?cols = "columns st"
  show ?thesis
  proof (cases "?p < length ?cols \<and> ?c < length ?cols")
    case False
    then show ?thesis by (auto simp: drop_board_def s Let_def)
  next
    case inr: True
    show ?thesis
    proof (cases "?p = ?c")
      case True
      let ?c' = "(?cols ! ?c)\<lparr>c_tasks := moveItemInArray (c_tasks (?cols ! ?c)) (previousIndex event) (currentIndex event)\<rparr>"
      from inr have "refsOf (?cols[?c := ?c']) + mset (c_tasks (?cols ! ?c)) = refsOf ?cols + mset (c_tasks ?c')"
        by (intro refsOf_update) simp
      then have "refsOf (?cols[?c := ?c']) = refsOf ?cols"
        by (simp add: mset_moveItemInArray)
      with True inr show ?thesis by (simp add: drop_board_def s Let_def)
    next
      case False
      obtain src tgt where t: "transferArrayItem (c_tasks (?cols ! ?p)) (c_tasks (?cols ! ?c))
          (previousIndex event) (currentIndex event) = (src, tgt)" by fastforce
      let ?cols1 = "?cols[?p := (?cols ! ?p)\<lparr>c_tasks := src\<rparr>]"
      let ?cols2 = "?cols1[?c := (?cols ! ?c)\<lparr>c_tasks := tgt\<rparr>]"
      from inr have 1: "refsOf ?cols1 + mset (c_tasks (?cols ! ?p)) = refsOf ?cols + mset src"
        using refsOf_update [of ?p ?cols "(?cols ! ?p)\<lparr>c_tasks := src\<rparr>"] by simp
      from inr False have 2: "refsOf ?cols2 + mset (c_tasks (?cols ! ?c)) = refsOf ?cols1 + mset tgt"
        using refsOf_update [of ?c ?cols1 "(?cols ! ?c)\<lparr>c_tasks := tgt\<rparr>"] by simp
      from mset_transferArrayItem [OF t]
      have 3: "mset src + mset tgt = mset (c_tasks (?cols ! ?p)) + mset (c_tasks (?cols ! ?c))" .
      have "refsOf ?cols2 + (mset (c_tasks (?cols ! ?p)) + mset (c_tasks (?cols ! ?c)))
            = refsOf ?cols + (mset src + mset tgt)"
        using 1 2 by (metis (no_types, lifting) add.assoc add.commute)
      with 3 have "refsOf ?cols2 = refsOf ?cols" by simp
      with False inr t show ?thesis by (simp add: drop_board_def s Let_def)
    qed
  qed
qed

text \<open>
  C3. For every sequence of drop events on the board, each a reorder within one column or
  a transfer between two columns, the multiset of task references across all columns is
  the same before and after, and no task object changes: no task is created, duplicated or
  lost.
\<close>

theorem drop_preserves_tasks:
  "mset (concat (map c_tasks (columns (fst (fold drop_board events s)))))
     = mset (concat (map c_tasks (columns (fst s))))
   \<and> objects (fst (fold drop_board events s)) = objects (fst s)
   \<and> mset (map (objects (fst (fold drop_board events s)))
            (concat (map c_tasks (columns (fst (fold drop_board events s))))))
     = mset (map (objects (fst s)) (concat (map c_tasks (columns (fst s)))))"
proof (induction events arbitrary: s)
  case Nil
  show ?case by simp
next
  case (Cons event events)
  have step: "mset (concat (map c_tasks (columns (fst (drop_board event s)))))
     = mset (concat (map c_tasks (columns (fst s))))"
    "objects (fst (drop_board event s)) = objects (fst s)"
    using drop_board_refs [of event s] by (simp_all add: refsOf_def)
  have "mset (map (objects (fst s)) (concat (map c_tasks (columns (fst (drop_board event s))))))
      = image_mset (objects (fst s)) (mset (concat (map c_tasks (columns (fst (drop_board event s))))))"
    by simp
  also have "\<dots> = mset (map (objects (fst s)) (concat (map c_tasks (columns (fst s)))))"
    unfolding step by simp
  finally show ?case
    using Cons.IH [of "drop_board event s"] step by simp
qed

lemma findIndex_Some: "findIndex P xs = Some i \<Longrightarrow> i < length xs \<and> P (xs ! i)"
proof (induction xs arbitrary: i)
  case Nil
  then show ?case by simp
next
  case (Cons x xs)
  then show ?case by (auto split: if_splits option.splits)
qed

lemma findIndex_None: "findIndex P xs = None \<longleftrightarrow> (\<forall>x \<in> set xs. \<not> P x)"
  by (induction xs) (auto split: option.splits)

lemma findIndex_remove1: "findIndex (\<lambda>x. x = e) xs = Some i \<Longrightarrow> spliceOut i xs = remove1 e xs"
proof (induction xs arbitrary: i)
  case Nil
  then show ?case by simp
next
  case (Cons x xs)
  show ?case
  proof (cases "x = e")
    case True
    with Cons.prems show ?thesis by (simp add: spliceOut_def)
  next
    case False
    with Cons.prems obtain j where j: "findIndex (\<lambda>x. x = e) xs = Some j" "i = Suc j"
      by (auto split: option.splits)
    from Cons.IH [OF j(1)] False j(2) show ?thesis by (simp add: spliceOut_def)
  qed
qed

lemma destinationColumn_Some: "destinationColumn st v = Some di \<Longrightarrow> di < length (columns st)"
  by (auto simp: destinationColumn_def Let_def split: option.splits if_splits dest: findIndex_Some)

lemma originalColumn_Some:
  "originalColumn st e = Some oi \<Longrightarrow> oi < length (columns st) \<and> e \<in> set (c_tasks (columns st ! oi))"
  unfolding originalColumn_def by (drule findIndex_Some) simp

lemma moveEdited_moves:
  assumes oi: "oi < length cols" and di: "di < length cols"
    and mem: "e \<in> set (c_tasks (cols ! oi))"
    and ne: "c_id (cols ! di) \<noteq> c_id (cols ! oi)"
  shows "moveEdited e (Some oi) (Some di) cols =
           cols[oi := (cols ! oi)\<lparr>c_tasks := remove1 e (c_tasks (cols ! oi))\<rparr>,
                di := (cols ! di)\<lparr>c_tasks := c_tasks (cols ! di) @ [e]\<rparr>]"
proof -
  from ne have neq: "di \<noteq> oi" by auto
  from mem have "findIndex (\<lambda>x. x = e) (c_tasks (cols ! oi)) \<noteq> None"
    by (auto simp: findIndex_None)
  then obtain i where i: "findIndex (\<lambda>x. x = e) (c_tasks (cols ! oi)) = Some i" by auto
  from findIndex_remove1 [OF i] i ne neq oi di show ?thesis
    by (simp add: moveEdited_def pushTask_def)
qed

lemma moveEdited_same:
  "orig = None \<or> dest = None \<or> c_id (cols ! the dest) = c_id (cols ! the orig)
     \<Longrightarrow> moveEdited e orig dest cols = cols"
  by (auto simp: moveEdited_def split: option.splits)

lemma saveToLocalStorage_close:
  "kanbanBoard (saveToLocalStorage st ls) = Json (map (storedColumn (objects (closeTaskModal st))) (columns (closeTaskModal st)))"
  by (simp add: saveToLocalStorage_def closeTaskModal_def)

text \<open>
  What \<open>saveTask\<close> does to a task being edited, on any state of the component and any
  valid form value. Both revisions return, assign the values of the form to the task
  object in place, every other object untouched, and store the board. The second revision
  then compares the id of the destination column it resolves with the id of the column
  that holds the task, and moves the task to the tail of the destination when they
  differ; the first revision leaves the columns alone.
\<close>

lemma saveTask_edit_in_place:
  "editingTask st = Some e \<Longrightarrow>
   (let r2 = saveTask_v2 False v freshId (st, ls); st2 = fst (stateOf r2);
        r1 = saveTask_v1 False v freshId (st, ls); st1 = fst (stateOf r1)
    in r2 = Returns (stateOf r2) \<and> r1 = Returns (stateOf r1)
       \<and> objects st2 = (objects st)(e := assignTask v (objects st e))
       \<and> objects st1 = (objects st)(e := assignTask v (objects st e))
       \<and> kanbanBoard (snd (stateOf r2)) = Json (map (storedColumn (objects st2)) (columns st2))
       \<and> kanbanBoard (snd (stateOf r1)) = Json (map (storedColumn (objects st1)) (columns st1))
       \<and> (\<forall>oi di. originalColumn st e = Some oi \<and> destinationColumn st v = Some di
                \<and> c_id (columns st ! di) \<noteq> c_id (columns st ! oi) \<longrightarrow>
             columns st2 =
               (columns st)[oi := (columns st ! oi)\<lparr>c_tasks := remove1 e (c_tasks (columns st ! oi))\<rparr>,
                            di := (columns st ! di)\<lparr>c_tasks := c_tasks (columns st ! di) @ [e]\<rparr>])
       \<and> (originalColumn st e = None \<or> destinationColumn st v = None
            \<or> c_id (columns st ! the (destinationColumn st v)) = c_id (columns st ! the (originalColumn st e)) \<longrightarrow>
             columns st2 = columns st)
       \<and> columns st1 = columns st)"
proof -
  assume ed: "editingTask st = Some e"
  let ?st1 = "st\<lparr>objects := (objects st)(e := assignTask v (objects st e))\<rparr>"
  let ?cols2 = "moveEdited e (originalColumn st e) (destinationColumn st v) (columns st)"
  let ?st2 = "?st1\<lparr>columns := ?cols2\<rparr>"
  have v2: "saveTask_v2 False v freshId (st, ls) = Returns (closeTaskModal ?st2, saveToLocalStorage ?st2 ls)"
    using ed by (simp add: saveTask_v2_def Let_def)
  have v1: "saveTask_v1 False v freshId (st, ls) = Returns (closeTaskModal ?st1, saveToLocalStorage ?st1 ls)"
    using ed by (simp add: saveTask_v1_def Let_def)
  have c2: "columns (closeTaskModal ?st2) = ?cols2" "objects (closeTaskModal ?st2) = (objects st)(e := assignTask v (objects st e))"
    and c1: "columns (closeTaskModal ?st1) = columns st" "objects (closeTaskModal ?st1) = (objects st)(e := assignTask v (objects st e))"
    by (simp_all add: closeTaskModal_def)
  have mv: "\<forall>oi di. originalColumn st e = Some oi \<and> destinationColumn st v = Some di
                \<and> c_id (columns st ! di) \<noteq> c_id (columns st ! oi) \<longrightarrow>
              ?cols2 =
                (columns st)[oi := (columns st ! oi)\<lparr>c_tasks := remove1 e (c_tasks (columns st ! oi))\<rparr>,
                             di := (columns st ! di)\<lparr>c_tasks := c_tasks (columns st ! di) @ [e]\<rparr>]"
  proof (intro allI impI)
    fix oi di
    assume a: "originalColumn st e = Some oi \<and> destinationColumn st v = Some di
                \<and> c_id (columns st ! di) \<noteq> c_id (columns st ! oi)"
    then have "oi < length (columns st)" "e \<in> set (c_tasks (columns st ! oi))" "di < length (columns st)"
      using originalColumn_Some destinationColumn_Some by blast+
    with a show "?cols2 =
                (columns st)[oi := (columns st ! oi)\<lparr>c_tasks := remove1 e (c_tasks (columns st ! oi))\<rparr>,
                             di := (columns st ! di)\<lparr>c_tasks := c_tasks (columns st ! di) @ [e]\<rparr>]"
      by (simp add: moveEdited_moves)
  qed
  have same: "originalColumn st e = None \<or> destinationColumn st v = None
               \<or> c_id (columns st ! the (destinationColumn st v)) = c_id (columns st ! the (originalColumn st e)) \<longrightarrow>
              ?cols2 = columns st"
    using moveEdited_same by blast
  show ?thesis
    unfolding Let_def v2 v1 stateOf.simps fst_conv snd_conv c2 c1
    using mv same saveToLocalStorage_close [of ?st2 ls] saveToLocalStorage_close [of ?st1 ls]
    unfolding c2 c1 by blast
qed

text \<open>
  After \<open>editTask\<close> the destination resolves to a column with the id of
  \<open>currentColumn\<close>, which is the column that holds the task: \<open>currentColumn?.id\<close> comes
  before \<open>v.statusId\<close>. So whatever status the form names, neither revision of \<open>saveTask\<close>
  changes the columns.
\<close>

lemma destinationColumn_editTask:
  assumes "oi < length (columns st)"
  shows "\<exists>di. destinationColumn (editTask e (columns st ! oi) st) v = Some di
            \<and> c_id (columns st ! di) = c_id (columns st ! oi)"
proof -
  let ?P = "\<lambda>c. Some (c_id c) = Some (c_id (columns st ! oi))"
  from assms have "columns st ! oi \<in> set (columns st)" by simp
  then have "findIndex ?P (columns st) \<noteq> None"
    by (auto simp: findIndex_None)
  then obtain di where di: "findIndex ?P (columns st) = Some di" by auto
  from findIndex_Some [OF di] have "c_id (columns st ! di) = c_id (columns st ! oi)" by simp
  with di show ?thesis
    by (simp add: destinationColumn_def editTask_def)
qed

lemma saveTask_after_editTask:
  assumes "originalColumn st e = Some oi"
  shows "columns (fst (stateOf (saveTask_v2 False v freshId (editTask e (columns st ! oi) st, ls))))
           = columns st"
    and "columns (fst (stateOf (saveTask_v1 False v freshId (editTask e (columns st ! oi) st, ls))))
           = columns st"
proof -
  let ?st = "editTask e (columns st ! oi) st"
  from assms have oi: "oi < length (columns st)" by (simp add: originalColumn_Some)
  from destinationColumn_editTask [OF oi, of e v] obtain di where
    di: "destinationColumn ?st v = Some di" "c_id (columns st ! di) = c_id (columns st ! oi)"
    by blast
  have ed: "editingTask ?st = Some e" and cols: "columns ?st = columns st"
    by (simp_all add: editTask_def)
  have orig: "originalColumn ?st e = Some oi"
    using assms by (simp add: originalColumn_def editTask_def)
  from di orig cols
  have same: "c_id (columns ?st ! the (destinationColumn ?st v))
      = c_id (columns ?st ! the (originalColumn ?st e))" by simp
  from saveTask_edit_in_place [OF ed, of v freshId ls] same cols
  show "columns (fst (stateOf (saveTask_v2 False v freshId (?st, ls)))) = columns st"
    and "columns (fst (stateOf (saveTask_v1 False v freshId (?st, ls)))) = columns st"
    unfolding Let_def by simp_all
qed

text \<open>
  C4. An edit that names another column as the status should take the task out of the
  column that holds it and append it at the tail of the named column. On the board loaded
  from storage, task \<open>T\<close> of column \<open>new\<close> is opened with \<open>editTask\<close>, the form names the
  status \<open>completed\<close>, and \<open>saveTask\<close> is called: in both revisions \<open>T\<close> is still the
  only task of column \<open>new\<close>, and column \<open>completed\<close> holds the two tasks it held before,
  also in the stored board.
\<close>

theorem saveTask_status_change_ignored:
  "map c_id (columns boardEx) = [''new'', ''completed'']
   \<and> map c_tasks (columns boardEx) = [[0], [1, 2]]
   \<and> editingTask (editTask 0 (columns boardEx ! 0) boardEx) = Some 0
   \<and> currentColumn (editTask 0 (columns boardEx ! 0) boardEx) = Some ''new''
   \<and> v_statusId formEx = Some ''completed''
   \<and> map c_tasks (columns (fst (stateOf
          (saveTask_v2 False formEx ''id'' (editTask 0 (columns boardEx ! 0) boardEx, storeEx)))))
       = [[0], [1, 2]]
   \<and> map c_tasks (columns (fst (stateOf
          (saveTask_v1 False formEx ''id'' (editTask 0 (columns boardEx ! 0) boardEx, storeEx)))))
       = [[0], [1, 2]]
   \<and> map (map t_id) (map c_tasks (case kanbanBoard (snd (stateOf
          (saveTask_v2 False formEx ''id'' (editTask 0 (columns boardEx ! 0) boardEx, storeEx)))) of
            Json cols \<Rightarrow> cols | _ \<Rightarrow> []))
       = [[''T''], [''A'', ''B'']]"
  by code_simp

text \<open>
  C6. On a stored text that \<open>JSON.parse\<close> rejects, \<open>loadTaskTypes\<close> keeps the component
  as it is and \<open>refreshCalendarFromStorage\<close> yields seven empty day lists, but
  \<open>loadFromLocalStorage\<close> throws the \<open>SyntaxError\<close> to its caller \<open>ngOnInit\<close>, which
  throws it on, the board being left as \<open>initializeBoard\<close> set it.
\<close>

theorem board_load_malformed_throws:
  "loadFromLocalStorage (ls\<lparr>kanbanBoard := Malformed raw\<rparr>) st = Throws SyntaxError st
   \<and> ngOnInit (ls\<lparr>kanbanBoard := Malformed raw\<rparr>) st
       = Throws SyntaxError (initializeBoard (loadTaskTypes (ls\<lparr>kanbanBoard := Malformed raw\<rparr>) st))
   \<and> loadTaskTypes (ls\<lparr>taskTypesItem := Malformed raw\<rparr>) st = st
   \<and> refreshCalendarFromStorage parse tz ws (ls\<lparr>kanbanBoard := Malformed raw\<rparr>) = replicate 7 []"
  by (simp add: loadFromLocalStorage_def ngOnInit_def loadTaskTypes_def refreshCalendarFromStorage_def)

section \<open>Properties of the calendar\<close>

lemma present_truthy: "present v = truthy v"
  by (cases v) (simp_all add: present_def)

lemma dateStr_effectiveDate:
  "(case dateStr t of None \<Rightarrow> None | Some s \<Rightarrow> parse s) = effectiveDate parse t"
proof (cases "truthy (t_scheduleDate t)")
  case True
  then show ?thesis
    by (cases "t_scheduleDate t") (simp_all add: dateStr_def effectiveDate_def present_truthy)
next
  case False
  then show ?thesis
    by (cases "t_dueDate t") (simp_all add: dateStr_def effectiveDate_def present_truthy)
qed

lemma div_in_week:
  fixes x :: int
  shows "(0 \<le> x \<and> x < 7 * 86400000) = (0 \<le> x div 86400000 \<and> x div 86400000 < 7)"
proof -
  define q r where "q = x div 86400000" and "r = x mod 86400000"
  have "x = q * 86400000 + r" "0 \<le> r" "r < 86400000"
    by (simp_all add: q_def r_def)
  then have "(0 \<le> x \<and> x < 7 * 86400000) = (0 \<le> q \<and> q < 7)"
    by arith
  then show ?thesis by (simp add: q_def)
qed

lemma in_week_iff:
  "(start \<le> d \<and> d < start + 7 * msPerDay) = (0 \<le> (d - start) div msPerDay \<and> (d - start) div msPerDay < 7)"
proof -
  have "(start \<le> d \<and> d < start + 7 * msPerDay) = (0 \<le> d - start \<and> d - start < 7 * 86400000)"
    unfolding msPerDay_def by arith
  then show ?thesis
    unfolding msPerDay_def using div_in_week [of "d - start"] by (simp only:)
qed

lemma placeTask_bucket:
  "placeTask parse start (start + 7 * msPerDay) t days =
     (case bucketIndex parse start t of
        None \<Rightarrow> days
      | Some idx \<Rightarrow> days[nat idx := days ! nat idx @ [calendarTaskOf t idx]])"
proof -
  have e: "effectiveDate parse t = (case dateStr t of None \<Rightarrow> None | Some s \<Rightarrow> parse s)"
    by (simp add: dateStr_effectiveDate)
  have ms: "(86400000::int) = msPerDay" by (simp add: msPerDay_def)
  show ?thesis
    unfolding placeTask_def bucketIndex_def e ms
    using in_week_iff [of start _ ]
    by (auto simp: Let_def split: option.splits)
qed

lemma fold_placeTask:
  assumes "length days = 7" "i < 7"
  shows "length (fold (placeTask parse start (start + 7 * msPerDay)) ts days) = 7
     \<and> fold (placeTask parse start (start + 7 * msPerDay)) ts days ! i =
         days ! i @ map (\<lambda>t. calendarTaskOf t (int i))
                      (filter (\<lambda>t. bucketIndex parse start t = Some (int i)) ts)"
  using assms
proof (induction ts arbitrary: days)
  case Nil
  then show ?case by simp
next
  case (Cons t ts)
  let ?days1 = "placeTask parse start (start + 7 * msPerDay) t days"
  have len: "length ?days1 = 7"
    using Cons.prems by (simp add: placeTask_bucket split: option.splits)
  have nth: "?days1 ! i = days ! i @ (if bucketIndex parse start t = Some (int i) then [calendarTaskOf t (int i)] else [])"
  proof (cases "bucketIndex parse start t")
    case None
    then show ?thesis by (simp add: placeTask_bucket)
  next
    case (Some idx)
    then have "0 \<le> idx" by (auto simp: bucketIndex_def Let_def split: option.splits if_splits)
    then have "(nat idx = i) = (idx = int i)" by auto
    with Some Cons.prems show ?thesis
      by (auto simp: placeTask_bucket nth_list_update)
  qed
  from Cons.IH [OF len Cons.prems(2)] nth show ?case by simp
qed

lemma weekEnd: "setDate tz start (getDate tz start + 7) = start + 7 * msPerDay"
  by (simp add: setDate_def)

lemma refresh_buckets:
  assumes "i < 7"
  shows "length (refreshCalendarFromStorage parse tz start ls) = 7
     \<and> refreshCalendarFromStorage parse tz start ls ! i =
         map (\<lambda>t. calendarTaskOf t (int i))
             (filter (\<lambda>t. bucketIndex parse start t = Some (int i)) (boardTasks ls))"
proof (cases "kanbanBoard ls")
  case (Json columns)
  have "length (replicate 7 ([]::CalendarTask list)) = 7" by simp
  from fold_placeTask [OF this assms, of parse start "concat (map c_tasks columns)"] Json assms
  show ?thesis
    by (simp add: refreshCalendarFromStorage_def boardTasks_def Let_def weekEnd)
qed (use assms in \<open>simp_all add: refreshCalendarFromStorage_def boardTasks_def\<close>)

text \<open>
  The placement of the projection, for every stored board, week start and reading of date
  strings. The projection has seven day lists. The list of day \<open>i\<close> holds, in board
  order, the calendar tasks of exactly those tasks of the stored board whose bucket index
  is \<open>i\<close>, each with \<open>dayIndex = i\<close>; the bucket index of a task is
  \<open>floor((effectiveDate - weekStart) / oneDay)\<close> when that lies in \<open>[0,7)\<close>, where the
  effective date is the parsed \<open>scheduleDate\<close> if present and the parsed \<open>dueDate\<close>
  otherwise, and a task with no parseable date has no bucket. A task whose parsed instant
  is \<open>weekStart\<close> itself has bucket 0, one whose instant is seven days later has none.
\<close>

lemma projection_buckets:
  "length (refreshCalendarFromStorage parse tz start ls) = 7
   \<and> (\<forall>i < 7. refreshCalendarFromStorage parse tz start ls ! i =
         map (\<lambda>t. calendarTaskOf t (int i))
             (filter (\<lambda>t. bucketIndex parse start t = Some (int i)) (boardTasks ls)))
   \<and> (\<forall>t i. ct_dayIndex (calendarTaskOf t i) = i)
   \<and> (\<forall>t. effectiveDate parse t = Some start \<longrightarrow> bucketIndex parse start t = Some 0)
   \<and> (\<forall>t. effectiveDate parse t = Some (start + 7 * msPerDay) \<longrightarrow> bucketIndex parse start t = None)
   \<and> (\<forall>t. effectiveDate parse t = None \<longrightarrow> bucketIndex parse start t = None)"
proof -
  have "length (refreshCalendarFromStorage parse tz start ls) = 7"
    using refresh_buckets [of 0] by simp
  moreover have "\<forall>i < 7. refreshCalendarFromStorage parse tz start ls ! i =
         map (\<lambda>t. calendarTaskOf t (int i))
             (filter (\<lambda>t. bucketIndex parse start t = Some (int i)) (boardTasks ls))"
    using refresh_buckets by blast
  moreover have "\<forall>t i. ct_dayIndex (calendarTaskOf t i) = i"
    by (simp add: calendarTaskOf_def)
  moreover have "\<forall>t. effectiveDate parse t = Some start \<longrightarrow> bucketIndex parse start t = Some 0"
    by (simp add: bucketIndex_def)
  moreover have "\<forall>t. effectiveDate parse t = Some (start + 7 * msPerDay) \<longrightarrow> bucketIndex parse start t = None"
    by (simp add: bucketIndex_def msPerDay_def)
  moreover have "\<forall>t. effectiveDate parse t = None \<longrightarrow> bucketIndex parse start t = None"
    by (simp add: bucketIndex_def)
  ultimately show ?thesis by blast
qed


lemma taskT_week:
  "effectiveDate parseDateOnly taskT = Some (weekOfJune3 0)"
  "effectiveDate parseDateOnly (taskT\<lparr>t_dueDate := Str ''2024-06-10''\<rparr>) = Some (weekOfJune3 0 + 7 * msPerDay)"
  "filter (\<lambda>t. bucketIndex parseDateOnly (weekOfJune3 0) t = Some (int 0)) (boardTasks (storeOf taskT)) = [taskT]"
  "filter (\<lambda>t. bucketIndex parseDateOnly (weekOfJune3 0) t = Some (int 0))
      (boardTasks (storeOf (taskT\<lparr>t_dueDate := Str ''2024-06-10''\<rparr>))) = []"
  by code_simp+

text \<open>
  C2. A task dated on the day of \<open>weekStart\<close> should land in day index 0, and a task
  dated seven days later should be excluded. \<open>weekStart\<close> is a local midnight, and a
  date string \<open>YYYY-MM-DD\<close> is read as midnight UTC. Four hours west of UTC, in the week
  whose Monday is 2024-06-03, the task due 2024-06-03 is in no day list at all, and the
  task due 2024-06-10 is in the list of day 6.
\<close>

theorem projection_boundary_diverges:
  "getDay tzWest (weekOfJune3 tzWest) = 1
   \<and> isoDate (weekOfJune3 tzWest + tzWest) = ''2024-06-03''
   \<and> t_dueDate taskT = Str ''2024-06-03''
   \<and> dayTasks (calendarOf tzWest (storeOf taskT)) = [[], [], [], [], [], [], []]
   \<and> dayTasks (calendarOf tzWest (storeOf (taskT\<lparr>t_dueDate := Str ''2024-06-10''\<rparr>)))
       = [[], [], [], [], [], [], [calendarTaskOf (taskT\<lparr>t_dueDate := Str ''2024-06-10''\<rparr>) 6]]"
  by code_simp

text \<open>
  C8, as amended. For every task included in the projection, \<open>durationMinutes\<close> of its
  calendar task is the estimated hours times 60 when the estimate is a number other than
  0, and 15 when the estimate is missing, \<open>null\<close> or 0.
\<close>

theorem projection_duration:
  "\<forall>i < 7. map ct_durationMinutes (refreshCalendarFromStorage parse tz start ls ! i) =
      map (\<lambda>t. case t_estimatedTimeHours t of
                  Num h \<Rightarrow> (if h = 0 then 15 else h * 60)
                | NNull \<Rightarrow> 15
                | NUndefined \<Rightarrow> 15)
          (filter (\<lambda>t. bucketIndex parse start t = Some (int i)) (boardTasks ls))"
proof (intro allI impI)
  fix i :: nat
  assume "i < 7"
  then have "refreshCalendarFromStorage parse tz start ls ! i =
         map (\<lambda>t. calendarTaskOf t (int i))
             (filter (\<lambda>t. bucketIndex parse start t = Some (int i)) (boardTasks ls))"
    using refresh_buckets by blast
  moreover have "\<And>t. ct_durationMinutes (calendarTaskOf t (int i)) =
      (case t_estimatedTimeHours t of Num h \<Rightarrow> (if h = 0 then 15 else h * 60) | NNull \<Rightarrow> 15 | NUndefined \<Rightarrow> 15)"
    by (simp add: calendarTaskOf_def split: jsnum.splits)
  ultimately show "map ct_durationMinutes (refreshCalendarFromStorage parse tz start ls ! i) =
      map (\<lambda>t. case t_estimatedTimeHours t of
                  Num h \<Rightarrow> (if h = 0 then 15 else h * 60)
                | NNull \<Rightarrow> 15
                | NUndefined \<Rightarrow> 15)
          (filter (\<lambda>t. bucketIndex parse start t = Some (int i)) (boardTasks ls))"
    by simp
qed

theorem projection_duration_witness:
  "map ct_durationMinutes (refreshCalendarFromStorage parseDateOnly 0 (weekOfJune3 0) (storeOf taskT) ! 0) = [15]
   \<and> t_estimatedTimeHours taskT = NUndefined
   \<and> map ct_durationMinutes (refreshCalendarFromStorage parseDateOnly 0 (weekOfJune3 0)
        (storeOf (taskT\<lparr>t_estimatedTimeHours := Num 2\<rparr>)) ! 0) = [120]"
proof -
  have z: "(0::nat) < 7" by simp
  have f: "filter (\<lambda>t. bucketIndex parseDateOnly (weekOfJune3 0) t = Some (int 0))
      (boardTasks (storeOf (taskT\<lparr>t_estimatedTimeHours := Num 2\<rparr>))) = [taskT\<lparr>t_estimatedTimeHours := Num 2\<rparr>]"
    by code_simp
  have e: "t_estimatedTimeHours taskT = NUndefined" by (simp add: taskT_def)
  from projection_duration [of parseDateOnly 0 "weekOfJune3 0" "storeOf taskT"] z taskT_week(3) e
  have a: "map ct_durationMinutes (refreshCalendarFromStorage parseDateOnly 0 (weekOfJune3 0) (storeOf taskT) ! 0) = [15]"
    by simp
  from projection_duration [of parseDateOnly 0 "weekOfJune3 0" "storeOf (taskT\<lparr>t_estimatedTimeHours := Num 2\<rparr>)"] z f
  have b: "map ct_durationMinutes (refreshCalendarFromStorage parseDateOnly 0 (weekOfJune3 0)
        (storeOf (taskT\<lparr>t_estimatedTimeHours := Num 2\<rparr>)) ! 0) = [120]"
    by simp
  from a b e show ?thesis by simp
qed

text \<open>
  The claim as stated gives a task with an estimate of 0 hours, the default of the form,
  the duration \<open>0 * 60\<close>; the projection gives it 15 minutes.
\<close>

theorem projection_duration_zero_estimate:
  "t_estimatedTimeHours (taskT\<lparr>t_estimatedTimeHours := Num 0\<rparr>) = Num 0
   \<and> map ct_durationMinutes (refreshCalendarFromStorage parseDateOnly 0 (weekOfJune3 0)
        (storeOf (taskT\<lparr>t_estimatedTimeHours := Num 0\<rparr>)) ! 0) = [15]
   \<and> (15::int) \<noteq> 0 * 60"
  by code_simp

lemma updateTasks_None: "updateTasks upd cid ts = None \<longleftrightarrow> cid \<notin> t_id ` set ts"
  by (induction ts) (auto split: option.splits)

lemma updateColumns_None:
  "updateColumns upd cid cols = None \<longleftrightarrow> cid \<notin> t_id ` set (concat (map c_tasks cols))"
proof (induction cols)
  case Nil
  show ?case by simp
next
  case (Cons c cols)
  show ?case
  proof (cases "updateTasks upd cid (c_tasks c)")
    case None
    then have "cid \<notin> t_id ` set (c_tasks c)" by (simp add: updateTasks_None)
    with None Cons.IH show ?thesis by (auto split: option.splits)
  next
    case (Some ts)
    then have "updateTasks upd cid (c_tasks c) \<noteq> None" by simp
    then have "cid \<in> t_id ` set (c_tasks c)" by (simp add: updateTasks_None)
    with Some show ?thesis by auto
  qed
qed

text \<open>
  When a task is found, it is the first task with the id in board order; its date is set
  by the branch of the revision, every other task and column stays as it was, and the whole
  board is stored again.
\<close>

lemma updateTasks_Some:
  "updateTasks upd cid ts = Some ts' \<Longrightarrow>
     \<exists>pre t post. ts = pre @ t # post \<and> cid \<notin> t_id ` set pre \<and> t_id t = cid
        \<and> ts' = pre @ upd t # post"
proof (induction ts arbitrary: ts')
  case Nil
  then show ?case by simp
next
  case (Cons a ts)
  show ?case
  proof (cases "t_id a = cid")
    case True
    with Cons.prems have "a # ts = [] @ a # ts \<and> cid \<notin> t_id ` set [] \<and> t_id a = cid
        \<and> ts' = [] @ upd a # ts" by simp
    then show ?thesis by blast
  next
    case False
    with Cons.prems obtain us where us: "updateTasks upd cid ts = Some us" "ts' = a # us"
      by (auto split: option.splits)
    from Cons.IH [OF us(1)] obtain pre t post where
      "ts = pre @ t # post" "cid \<notin> t_id ` set pre" "t_id t = cid" "us = pre @ upd t # post"
      by blast
    with False us(2) have "a # ts = (a # pre) @ t # post \<and> cid \<notin> t_id ` set (a # pre) \<and> t_id t = cid
        \<and> ts' = (a # pre) @ upd t # post" by auto
    then show ?thesis by blast
  qed
qed

lemma updateColumns_Some:
  "updateColumns upd cid cols = Some cols' \<Longrightarrow>
     \<exists>before c after ts'. cols = before @ c # after
        \<and> cid \<notin> t_id ` set (concat (map c_tasks before))
        \<and> updateTasks upd cid (c_tasks c) = Some ts'
        \<and> cols' = before @ c\<lparr>c_tasks := ts'\<rparr> # after"
proof (induction cols arbitrary: cols')
  case Nil
  then show ?case by simp
next
  case (Cons a cols)
  show ?case
  proof (cases "updateTasks upd cid (c_tasks a)")
    case (Some ts')
    with Cons.prems have "a # cols = [] @ a # cols
        \<and> cid \<notin> t_id ` set (concat (map c_tasks []))
        \<and> updateTasks upd cid (c_tasks a) = Some ts'
        \<and> cols' = [] @ a\<lparr>c_tasks := ts'\<rparr> # cols" by simp
    then show ?thesis by blast
  next
    case None
    then have na: "cid \<notin> t_id ` set (c_tasks a)"
      by (simp add: updateTasks_None)
    from None Cons.prems obtain us where us: "updateColumns upd cid cols = Some us" "cols' = a # us"
      by (auto split: option.splits)
    from Cons.IH [OF us(1)] obtain before c after ts' where
      "cols = before @ c # after" "cid \<notin> t_id ` set (concat (map c_tasks before))"
      "updateTasks upd cid (c_tasks c) = Some ts'" "us = before @ c\<lparr>c_tasks := ts'\<rparr> # after"
      by blast
    with na us(2) have "a # cols = (a # before) @ c # after
        \<and> cid \<notin> t_id ` set (concat (map c_tasks (a # before)))
        \<and> updateTasks upd cid (c_tasks c) = Some ts'
        \<and> cols' = (a # before) @ c\<lparr>c_tasks := ts'\<rparr> # after" by auto
    then show ?thesis by blast
  qed
qed

lemma updateKanbanTaskDate_found:
  assumes "kanbanBoard ls = Json cols"
    and "updateColumns (upd (isoDate (setDate tz start (getDate tz start + k)))) (ct_id ct) cols = Some cols'"
  shows "updateKanbanTaskDate upd tz start ct k ls = ls\<lparr>kanbanBoard := Json cols'\<rparr>"
  using assms by (simp add: updateKanbanTaskDate_def Let_def)

lemma updateKanbanTaskDate_no_match:
  assumes "ct_id ct \<notin> t_id ` set (boardTasks ls)"
  shows "updateKanbanTaskDate upd tz start ct k ls = ls"
proof (cases "kanbanBoard ls")
  case (Json cols)
  with assms have "updateColumns (upd (isoDate (setDate tz start (getDate tz start + k)))) (ct_id ct) cols = None"
    by (simp add: updateColumns_None boardTasks_def)
  with Json show ?thesis by (simp add: updateKanbanTaskDate_def Let_def)
qed (simp_all add: updateKanbanTaskDate_def)

text \<open>
  C9. When the id of the dragged calendar task is the id of no task of the stored board,
  \<open>updateKanbanTaskDate\<close> leaves local storage exactly as it was, and so does the whole
  of \<open>onDrop\<close>, in both revisions of the calendar.
\<close>

theorem writeback_no_match_unchanged:
  "ct_id ct \<notin> t_id ` set (boardTasks ls) \<Longrightarrow>
     updateKanbanTaskDate_p1 tz start ct k ls = ls
     \<and> updateKanbanTaskDate_p0 tz start ct k ls = ls
     \<and> snd (onDrop_p1 tz (event\<lparr>item_data := ct\<rparr>) target (cal, ls)) = ls
     \<and> snd (onDrop_p0 tz (event\<lparr>item_data := ct\<rparr>) target (cal, ls)) = ls"
proof -
  assume a: "ct_id ct \<notin> t_id ` set (boardTasks ls)"
  then have i: "ct_id (setDayIndex j ct) \<notin> t_id ` set (boardTasks ls)" for j
    by (simp add: setDayIndex_def)
  have 1: "updateKanbanTaskDate_p1 tz start ct k ls = ls"
    unfolding updateKanbanTaskDate_p1_def using a by (rule updateKanbanTaskDate_no_match)
  have 0: "updateKanbanTaskDate_p0 tz start ct k ls = ls"
    unfolding updateKanbanTaskDate_p0_def using a by (rule updateKanbanTaskDate_no_match)
  have "updateKanbanTaskDate_p1 tz (weekStart cal) (setDayIndex j ct) k ls = ls" for j k
    unfolding updateKanbanTaskDate_p1_def using i by (rule updateKanbanTaskDate_no_match)
  then have d1: "snd (onDrop_p1 tz (event\<lparr>item_data := ct\<rparr>) target (cal, ls)) = ls"
    by (simp add: onDrop_p1_def Let_def)
  have "updateKanbanTaskDate_p0 tz (weekStart cal) (setDayIndex j ct) k ls = ls" for j k
    unfolding updateKanbanTaskDate_p0_def using i by (rule updateKanbanTaskDate_no_match)
  then have d0: "snd (onDrop_p0 tz (event\<lparr>item_data := ct\<rparr>) target (cal, ls)) = ls"
    by (simp add: onDrop_p0_def Let_def)
  from 1 0 d1 d0 show ?thesis by blast
qed

theorem writeback_no_match_unchanged_witness:
  "ct_id (calendarTaskOf (taskT\<lparr>t_id := ''other''\<rparr>) 0) \<notin> t_id ` set (boardTasks (storeOf taskT))
   \<and> updateKanbanTaskDate_p1 0 (weekOfJune3 0) (calendarTaskOf (taskT\<lparr>t_id := ''other''\<rparr>) 0) 2 (storeOf taskT)
       = storeOf taskT
   \<and> updateKanbanTaskDate_p0 0 (weekOfJune3 0) (calendarTaskOf (taskT\<lparr>t_id := ''other''\<rparr>) 0) 2 (storeOf taskT)
       = storeOf taskT
   \<and> snd (onDrop_p1 0 ((dragT 0 0 2)\<lparr>item_data := calendarTaskOf (taskT\<lparr>t_id := ''other''\<rparr>) 0\<rparr>) 2
            (calendarOf 0 (storeOf taskT), storeOf taskT)) = storeOf taskT
   \<and> snd (onDrop_p0 0 ((dragT 0 0 2)\<lparr>item_data := calendarTaskOf (taskT\<lparr>t_id := ''other''\<rparr>) 0\<rparr>) 2
            (calendarOf 0 (storeOf taskT), storeOf taskT)) = storeOf taskT"
proof -
  have "ct_id (calendarTaskOf (taskT\<lparr>t_id := ''other''\<rparr>) 0) \<notin> t_id ` set (boardTasks (storeOf taskT))"
    by (simp add: calendarTaskOf_def boardTasks_def storeOf_def taskT_def)
  from this writeback_no_match_unchanged [OF this, of 0 "weekOfJune3 0" 2 "dragT 0 0 2" 2 "calendarOf 0 (storeOf taskT)"]
  show ?thesis by blast
qed

text \<open>
  The revision of part 000 compares the old day index with \<open>targetDayIndex + 1\<close>: a
  task whose day index is one more than the day it is dropped on is not written back,
  whatever the time zone.
\<close>

lemma onDrop_p0_skips_adjacent:
  "ct_dayIndex (item_data event) = target + 1 \<Longrightarrow> snd (onDrop_p0 tz event target (cal, ls)) = ls"
  by (simp add: onDrop_p0_def Let_def)

text \<open>
  \<open>updateKanbanTaskDate\<close> formats the instant \<open>weekStart + newDayIndex\<close> days in UTC.
  When \<open>weekStart\<close> is a local midnight, the UTC day of that instant is the local day of
  \<open>weekStart\<close> plus \<open>newDayIndex\<close> only at UTC and west of it; east of UTC it is the day
  before.
\<close>

lemma Day_offset:
  assumes "0 \<le> r" "r < msPerDay"
  shows "Day (q * msPerDay + r) = q"
  using assms by (simp add: Day_def msPerDay_def)

lemma utc_day_of_local_midnight:
  assumes midnight: "(start + tz) mod msPerDay = 0"
  shows "0 < tz \<and> tz \<le> msPerDay \<longrightarrow>
           Day (setDate tz start (getDate tz start + k)) = Day (start + tz) + k - 1"
    and "- msPerDay < tz \<and> tz \<le> 0 \<longrightarrow>
           Day (setDate tz start (getDate tz start + k)) = Day (start + tz) + k"
proof -
  let ?D = "Day (start + tz)"
  have "start + tz = ?D * msPerDay + (start + tz) mod msPerDay"
    by (simp add: Day_def)
  with midnight have s: "start = ?D * msPerDay - tz" by simp
  have n: "setDate tz start (getDate tz start + k) = start + k * msPerDay"
    by (simp add: setDate_def)
  show "0 < tz \<and> tz \<le> msPerDay \<longrightarrow>
           Day (setDate tz start (getDate tz start + k)) = Day (start + tz) + k - 1"
  proof
    assume tz: "0 < tz \<and> tz \<le> msPerDay"
    have "start + k * msPerDay = (?D + k - 1) * msPerDay + (msPerDay - tz)"
      using s by (simp add: algebra_simps)
    moreover have "Day ((?D + k - 1) * msPerDay + (msPerDay - tz)) = ?D + k - 1"
      using tz by (intro Day_offset) simp_all
    ultimately show "Day (setDate tz start (getDate tz start + k)) = ?D + k - 1"
      using n by simp
  qed
  show "- msPerDay < tz \<and> tz \<le> 0 \<longrightarrow>
           Day (setDate tz start (getDate tz start + k)) = Day (start + tz) + k"
  proof
    assume tz: "- msPerDay < tz \<and> tz \<le> 0"
    have "start + k * msPerDay = (?D + k) * msPerDay + (- tz)"
      using s by (simp add: algebra_simps)
    moreover have "Day ((?D + k) * msPerDay + (- tz)) = ?D + k"
      using tz by (intro Day_offset) simp_all
    ultimately show "Day (setDate tz start (getDate tz start + k)) = ?D + k"
      using n by simp
  qed
qed

text \<open>
  The scenario of the write-back: task \<open>T\<close>, due 2024-06-03 and without
  \<open>scheduleDate\<close>, is dragged from day 0 to day 2 of the week of Monday 2024-06-03. The
  first revision writes \<open>dueDate = 2024-06-05\<close> where local time is UTC, the other
  revision where local time is five and a half hours ahead of UTC.
\<close>

lemma writeback_scenario_agrees:
  "boardTasks (snd (onDrop_p1 0 (dragT 0 0 2) 2 (calendarOf 0 (storeOf taskT), storeOf taskT)))
     = [taskT\<lparr>t_dueDate := Str ''2024-06-05''\<rparr>]"
  "boardTasks (snd (onDrop_p0 tzEast (dragT 0 0 2) 2 (calendarOf tzEast (storeOf taskT), storeOf taskT)))
     = [taskT\<lparr>t_dueDate := Str ''2024-06-05''\<rparr>]"
  by code_simp+

text \<open>
  C1. The same drag writes another date once the time zone is exchanged, since
  \<open>toISOString\<close> formats the local midnight \<open>weekStart + dayIndex\<close> in UTC: the first
  revision writes 2024-06-04 five and a half hours east of UTC, and the other revision,
  which passes \<open>targetDayIndex + 1\<close>, writes 2024-06-06 at UTC. That revision also writes
  nothing at all when a task shown on day 3 is dropped on day 2, since it compares the old
  day index with \<open>targetDayIndex + 1\<close>. A task whose \<open>scheduleDate\<close> is \<open>null\<close>, as the
  form of the board saves it, gets \<open>scheduleDate\<close> written and keeps its \<open>dueDate\<close>.
\<close>

theorem writeback_scenario_diverges:
  "dayTasks (calendarOf tzEast (storeOf taskT)) ! 0 = [calendarTaskOf taskT 0]
   \<and> boardTasks (snd (onDrop_p1 tzEast (dragT 0 0 2) 2 (calendarOf tzEast (storeOf taskT), storeOf taskT)))
       = [taskT\<lparr>t_dueDate := Str ''2024-06-04''\<rparr>]
   \<and> dayTasks (calendarOf 0 (storeOf taskT)) ! 0 = [calendarTaskOf taskT 0]
   \<and> boardTasks (snd (onDrop_p0 0 (dragT 0 0 2) 2 (calendarOf 0 (storeOf taskT), storeOf taskT)))
       = [taskT\<lparr>t_dueDate := Str ''2024-06-06''\<rparr>]
   \<and> dayTasks (calendarOf tzEast (storeOf (taskT\<lparr>t_dueDate := Str ''2024-06-06''\<rparr>))) ! 3
       = [calendarTaskOf (taskT\<lparr>t_dueDate := Str ''2024-06-06''\<rparr>) 3]
   \<and> snd (onDrop_p0 tzEast (dragT 3 3 2) 2
            (calendarOf tzEast (storeOf (taskT\<lparr>t_dueDate := Str ''2024-06-06''\<rparr>)),
             storeOf (taskT\<lparr>t_dueDate := Str ''2024-06-06''\<rparr>)))
       = storeOf (taskT\<lparr>t_dueDate := Str ''2024-06-06''\<rparr>)
   \<and> boardTasks (snd (onDrop_p1 0 (dragT 0 0 2) 2
            (calendarOf 0 (storeOf (taskT\<lparr>t_scheduleDate := Null\<rparr>)), storeOf (taskT\<lparr>t_scheduleDate := Null\<rparr>))))
       = [taskT\<lparr>t_scheduleDate := Str ''2024-06-05''\<rparr>]"
  by code_simp

end
